theory Spec2Isabelle
  imports Complex_Main "HOL-Library.Word"
begin

section \<open>Python floats\<close>

text \<open>
  A Python float is an IEEE 754 binary64 value: a finite number (\<open>Finite 0\<close> is the
  positive zero), the negative zero, an infinity or a NaN. The four bytes that
  \<^verbatim>\<open>struct.pack('f', v)\<close> returns hold a binary32 value, of the same shape. Arithmetic
  rounds the exact result to the nearest value of the format, ties to even, and overflows
  to an infinity.
\<close>

datatype ieee = Finite real | Neg_zero | Pos_inf | Neg_inf | NaN

text \<open>The number of binary digits of a natural number (\<^verbatim>\<open>int.bit_length\<close>).\<close>

fun bit_length :: "nat \<Rightarrow> nat" where
  "bit_length n = (if n = 0 then 0 else Suc (bit_length (n div 2)))"

declare bit_length.simps [simp del]

definition pow2 :: "int \<Rightarrow> real" where
  "pow2 k = (if k \<ge> 0 then 2 ^ nat k else 1 / 2 ^ nat (- k))"

text \<open>For \<open>x > 0\<close>, the exponent \<open>e\<close> with \<open>2\<^sup>e \<le> x < 2\<^sup>e\<^sup>+\<^sup>1\<close>.\<close>

definition floor_log2 :: "real \<Rightarrow> int" where
  "floor_log2 x =
     (if x \<ge> 1 then int (bit_length (nat \<lfloor>x\<rfloor>)) - 1
      else - int (bit_length (nat (\<lceil>1 / x\<rceil> - 1))))"

definition round_half_even :: "real \<Rightarrow> int" where
  "round_half_even x =
     (let f = \<lfloor>x\<rfloor>; d = x - of_int f
      in if d < 1 / 2 then f else if d > 1 / 2 then f + 1 else if even f then f else f + 1)"

text \<open>
  Rounding of a real number to the binary format with \<open>p\<close> significant bits and
  exponents from \<open>emin\<close> to \<open>emax\<close>: the numbers of the format near \<open>x\<close> are the
  multiples of \<open>q\<close> (subnormal below \<open>2\<^bsup>emin\<^esup>\<close>); a result beyond the largest finite
  number is an infinity, and a result of zero keeps the sign of \<open>x\<close>.
\<close>

definition round_binary :: "nat \<Rightarrow> int \<Rightarrow> int \<Rightarrow> real \<Rightarrow> ieee" where
  "round_binary p emin emax x =
     (if x = 0 then Finite 0
      else
        (let e = max (floor_log2 \<bar>x\<bar>) emin;
             q = pow2 (e - int p + 1);
             y = of_int (round_half_even (\<bar>x\<bar> / q)) * q
         in if y \<ge> pow2 (emax + 1) then (if x < 0 then Neg_inf else Pos_inf)
            else if y = 0 then (if x < 0 then Neg_zero else Finite 0)
            else Finite (if x < 0 then - y else y)))"

definition round_binary64 :: "real \<Rightarrow> ieee" where
  "round_binary64 = round_binary 53 (- 1022) 1023"

definition round_binary32 :: "real \<Rightarrow> ieee" where
  "round_binary32 = round_binary 24 (- 126) 127"

definition to_real :: "ieee \<Rightarrow> real" where
  "to_real a = (case a of Finite r \<Rightarrow> r | _ \<Rightarrow> 0)"

definition is_inf :: "ieee \<Rightarrow> bool" where
  "is_inf a \<longleftrightarrow> a = Pos_inf \<or> a = Neg_inf"

definition is_zero :: "ieee \<Rightarrow> bool" where
  "is_zero a \<longleftrightarrow> a = Finite 0 \<or> a = Neg_zero"

definition is_negative :: "ieee \<Rightarrow> bool" where
  "is_negative a = (case a of Finite r \<Rightarrow> r < 0 | Neg_zero \<Rightarrow> True | Neg_inf \<Rightarrow> True
                    | _ \<Rightarrow> False)"

text \<open>The float operations \<^verbatim>\<open>a - b\<close>, \<^verbatim>\<open>a * b\<close>, \<^verbatim>\<open>a < b\<close> and \<^verbatim>\<open>a > b\<close>.\<close>

definition py_sub :: "ieee \<Rightarrow> ieee \<Rightarrow> ieee" where
  "py_sub a b =
     (if a = NaN \<or> b = NaN then NaN
      else if a = Pos_inf then (if b = Pos_inf then NaN else Pos_inf)
      else if a = Neg_inf then (if b = Neg_inf then NaN else Neg_inf)
      else if b = Pos_inf then Neg_inf
      else if b = Neg_inf then Pos_inf
      else
        (let r = to_real a - to_real b
         in if r = 0 then (if a = Neg_zero \<and> b \<noteq> Neg_zero then Neg_zero else Finite 0)
            else round_binary64 r))"

definition py_mul :: "ieee \<Rightarrow> ieee \<Rightarrow> ieee" where
  "py_mul a b =
     (if a = NaN \<or> b = NaN then NaN
      else if is_inf a \<or> is_inf b then
        (if is_zero a \<or> is_zero b then NaN
         else if is_negative a \<noteq> is_negative b then Neg_inf else Pos_inf)
      else
        (let r = to_real a * to_real b
         in if r = 0 then (if is_negative a \<noteq> is_negative b then Neg_zero else Finite 0)
            else round_binary64 r))"

definition py_lt :: "ieee \<Rightarrow> ieee \<Rightarrow> bool" where
  "py_lt a b =
     (if a = NaN \<or> b = NaN then False
      else if a = Pos_inf \<or> b = Neg_inf then False
      else if a = Neg_inf \<or> b = Pos_inf then True
      else to_real a < to_real b)"

definition py_gt :: "ieee \<Rightarrow> ieee \<Rightarrow> bool" where
  "py_gt a b = py_lt b a"

section \<open>The decoded model\<close>

text \<open>
  Modelled from the spec: the classes of \<^verbatim>\<open>lib/parse_3db.py\<close> (\<^verbatim>\<open>Model\<close>, its materials,
  meshes, links and animations) are not part of the sources; the records below follow
  section 3 of the specification and the attribute names that \<^verbatim>\<open>lib/export.py\<close> reads.
  Indices are unsigned (\<open>u32\<close> in the specification), so a negative Python index never
  occurs; a pool is a Python list of lists. Names are taken after the
  \<^verbatim>\<open>decode('utf-8', errors='ignore')\<close> step, as strings.
\<close>

type_synonym vec3 = "ieee \<times> ieee \<times> ieee"
type_synonym vec2 = "ieee \<times> ieee"

record material =
  material_name :: string
  material_path :: string

record mesh_link =
  material :: nat
  points :: nat
  triangles :: nat
  texture_coordinates :: nat

record mesh =
  links :: "mesh_link list"

record animation =
  anim_name :: string
  anim_meshes :: "nat list"

record model =
  model_name :: string
  materials :: "material list"
  meshes :: "mesh list"
  animations :: "animation list"
  points_data :: "vec3 list list"
  triangle_data :: "32 word list list"
  texture_coordinates_data :: "vec2 list list"

section \<open>What the serializer produces\<close>

text \<open>
  \<^verbatim>\<open>struct.pack('f', v)\<close> and \<^verbatim>\<open>struct.pack('I', i)\<close> each return four bytes: the
  binary32 value nearest to \<open>v\<close>, and the unsigned 32-bit integer \<open>i\<close>. A byte array is
  modelled as the list of the packed four-byte items appended to it, so its byte length
  is four times the length of the list.
\<close>

datatype packed = Pack_f ieee | Pack_I "32 word"

text \<open>
  \<^verbatim>\<open>struct.pack('f', value)\<close> in native mode converts the double as a C cast does:
  rounded to binary32, an infinity beyond the range, never an exception.
\<close>

definition struct_pack_f :: "ieee \<Rightarrow> packed" where
  "struct_pack_f v = Pack_f (case v of Finite r \<Rightarrow> round_binary32 r | _ \<Rightarrow> v)"

definition len_bytes :: "packed list \<Rightarrow> nat" where
  "len_bytes b = 4 * length b"

datatype component_type = FLOAT | UNSIGNED_INT

datatype accessor_type = VEC3 | VEC2 | SCALAR

record accessor =
  bufferView :: nat
  byteOffset :: nat
  componentType :: component_type
  acc_count :: nat
  acc_type :: accessor_type
  acc_min :: "ieee list option"
  acc_max :: "ieee list option"

record primitive =
  POSITION :: nat
  TEXCOORD_0 :: nat
  indices :: nat
  prim_material :: nat

record gltf_mesh =
  primitives :: "primitive list"

record node =
  node_mesh :: nat
  node_name :: string

datatype py_error = IndexError | ValueError

text \<open>The lines the serializer prints, one constructor per \<^verbatim>\<open>print\<close> call of the loop.\<close>

datatype message =
    Duplicate_animation_names "string list"
  | Mesh_index_out_of_range nat string
  | Empty_points_data string nat nat
  | Empty_triangles_data string nat nat
  | Texture_coordinates_count_mismatch nat nat string nat nat
  | Empty_mesh_found string nat nat
  | Error_processing_mesh string nat nat py_error
  | Invalid_material_index nat string nat nat

text \<open>
  The variables of \<^verbatim>\<open>export_to_gltf\<close> that its loops update, together with the model
  object: the pools are shared mutable lists, so the model is part of the state.
\<close>

record export_state =
  mdl :: model
  vertex_byte_array :: "packed list"
  index_byte_array :: "packed list"
  accessors :: "accessor list"
  gltf_meshes :: "gltf_mesh list"
  nodes :: "node list"
  anim_name_indexer :: "(string \<times> nat) list"
  printed :: "message list"

section \<open>Helpers of \<^verbatim>\<open>lib/export.py\<close>\<close>

definition transform_point :: "vec3 \<Rightarrow> vec3" where
  "transform_point p =
     (case p of (p0, p1, p2) \<Rightarrow>
        (let scale = Finite 100
         in (py_mul (py_sub p0 (Finite 0.5)) scale, py_mul (py_sub p1 (Finite 0.5)) scale,
             py_mul (py_sub p2 (Finite 0.5)) scale)))"

text \<open>List indexing with an unsigned index: out of range raises \<^verbatim>\<open>IndexError\<close>.\<close>

definition getitem :: "'a list \<Rightarrow> nat \<Rightarrow> py_error + 'a" where
  "getitem xs i = (if i < length xs then Inr (xs ! i) else Inl IndexError)"

text \<open>
  \<^verbatim>\<open>min\<close> and \<^verbatim>\<open>max\<close> of a list raise \<^verbatim>\<open>ValueError\<close> on the empty list; otherwise
  they keep the first item and replace it by each later item that compares smaller
  (greater).
\<close>

fun py_min :: "ieee list \<Rightarrow> py_error + ieee" where
  "py_min [] = Inl ValueError"
| "py_min (x # xs) = Inr (fold (\<lambda>item best. if py_lt item best then item else best) xs x)"

fun py_max :: "ieee list \<Rightarrow> py_error + ieee" where
  "py_max [] = Inl ValueError"
| "py_max (x # xs) = Inr (fold (\<lambda>item best. if py_gt item best then item else best) xs x)"

text \<open>
  \<^verbatim>\<open>operator.itemgetter(i)(vertex)\<close>; the source applies it for \<open>i\<close> in \<^verbatim>\<open>range(3)\<close>
  only, to vertices of three components.
\<close>

fun itemgetter :: "nat \<Rightarrow> vec3 \<Rightarrow> ieee" where
  "itemgetter 0 (x, y, z) = x"
| "itemgetter (Suc 0) (x, y, z) = y"
| "itemgetter (Suc (Suc i)) (x, y, z) = z"

text \<open>The three comprehensions \<^verbatim>\<open>[min([itemgetter(i)(v) for v in vertices]) for i in range(3)]\<close>.\<close>

definition bounds :: "(ieee list \<Rightarrow> py_error + ieee) \<Rightarrow> vec3 list \<Rightarrow> py_error + ieee list" where
  "bounds f vertices =
     (case f (map (itemgetter 0) vertices) of Inl e \<Rightarrow> Inl e | Inr b0 \<Rightarrow>
      (case f (map (itemgetter (Suc 0)) vertices) of Inl e \<Rightarrow> Inl e | Inr b1 \<Rightarrow>
       (case f (map (itemgetter (Suc (Suc 0))) vertices) of Inl e \<Rightarrow> Inl e | Inr b2 \<Rightarrow>
          Inr [b0, b1, b2])))"

subsection \<open>String formatting\<close>

definition digit :: "nat \<Rightarrow> char" where
  "digit d = ''0123456789'' ! d"

fun str_nat :: "nat \<Rightarrow> string" where
  "str_nat n = (if n < 10 then [digit n] else str_nat (n div 10) @ [digit (n mod 10)])"

declare str_nat.simps [simp del]

text \<open>The format specification \<^verbatim>\<open>:02d\<close>: decimal, padded with zeros on the left to width 2.\<close>

definition format_02d :: "nat \<Rightarrow> string" where
  "format_02d n = (let s = str_nat n in replicate (2 - length s) (CHR ''0'') @ s)"

text \<open>\<^verbatim>\<open>s.replace("b'", "")\<close>: occurrences are removed from left to right, without overlap.\<close>

fun replace_b_quote :: "string \<Rightarrow> string" where
  "replace_b_quote (c # d # cs) =
     (if c = CHR ''b'' \<and> d = CHR 0x27 then replace_b_quote cs
      else c # replace_b_quote (d # cs))"
| "replace_b_quote cs = cs"

text \<open>\<^verbatim>\<open>s.replace("'", "")\<close>.\<close>

definition replace_quote :: "string \<Rightarrow> string" where
  "replace_quote s = filter (\<lambda>c. c \<noteq> CHR 0x27) s"

text \<open>
  \<^verbatim>\<open>s.strip()\<close> removes leading and trailing whitespace; among the code points below 256
  these are 9 to 13, 28 to 32, 133 and 160.
\<close>

definition isspace :: "char \<Rightarrow> bool" where
  "isspace c =
     (let k = (of_char c :: nat) in (9 \<le> k \<and> k \<le> 13) \<or> (28 \<le> k \<and> k \<le> 32) \<or> k = 133 \<or> k = 160)"

definition strip :: "string \<Rightarrow> string" where
  "strip s = rev (dropWhile isspace (rev (dropWhile isspace s)))"

text \<open>The chain \<^verbatim>\<open>.replace("b'", "").replace("'", "").strip()\<close> applied to names.\<close>

definition clean_up :: "string \<Rightarrow> string" where
  "clean_up s = strip (replace_quote (replace_b_quote s))"

subsection \<open>Loops and printing\<close>

text \<open>A \<^verbatim>\<open>for\<close> loop over a list whose body may raise: the first exception ends the loop.\<close>

fun for_each :: "('a \<Rightarrow> 's \<Rightarrow> 'e + 's) \<Rightarrow> 'a list \<Rightarrow> 's \<Rightarrow> 'e + 's" where
  "for_each body [] s = Inr s"
| "for_each body (x # xs) s =
     (case body x s of Inl e \<Rightarrow> Inl e | Inr s' \<Rightarrow> for_each body xs s')"

definition print :: "message \<Rightarrow> export_state \<Rightarrow> export_state" where
  "print w st = st\<lparr>printed := printed st @ [w]\<rparr>"

section \<open>The body of \<^verbatim>\<open>export_to_gltf\<close>\<close>

text \<open>
  The counting pass over the animation names (a dictionary in insertion order) and the
  list of names that occur more than once.
\<close>

fun count_name :: "string \<Rightarrow> (string \<times> nat) list \<Rightarrow> (string \<times> nat) list" where
  "count_name n [] = [(n, 1)]"
| "count_name n ((k, c) # rest) =
     (if k = n then (k, c + 1) # rest else (k, c) # count_name n rest)"

definition anim_name_counts :: "model \<Rightarrow> (string \<times> nat) list" where
  "anim_name_counts m = fold (\<lambda>a d. count_name (anim_name a) d) (animations m) []"

definition duplicate_names :: "model \<Rightarrow> string list" where
  "duplicate_names m = map fst (filter (\<lambda>(n, c). c > 1) (anim_name_counts m))"

text \<open>
  The update of \<^verbatim>\<open>anim_name_indexer\<close> at the head of the animation loop: 0 at the first
  occurrence of a name, one more at each later one.
\<close>

fun index_name :: "string \<Rightarrow> (string \<times> nat) list \<Rightarrow> (string \<times> nat) list" where
  "index_name n [] = [(n, 0)]"
| "index_name n ((k, c) # rest) =
     (if k = n then (k, c + 1) # rest else (k, c) # index_name n rest)"

text \<open>
  The \<^verbatim>\<open>try\<close> block of the link loop. The result \<open>None\<close> is a \<^verbatim>\<open>continue\<close>; otherwise the
  triangles, the transformed vertices, the reconciled texture coordinates and
  \<^verbatim>\<open>vertex_data_start\<close> are handed on. The three pool reads come first, in the order of
  the source, and an \<^verbatim>\<open>IndexError\<close> of any of them reaches the \<^verbatim>\<open>except\<close> clause.
  \<^verbatim>\<open>texture_coordinates.extend(...)\<close> changes the list stored in the pool;
  the slice \<^verbatim>\<open>texture_coordinates[:len(vertices)]\<close> is a new list.
\<close>

definition resolve_link ::
  "animation \<Rightarrow> nat \<Rightarrow> nat \<Rightarrow> mesh_link \<Rightarrow> export_state \<Rightarrow>
   export_state \<times> (32 word list \<times> vec3 list \<times> vec2 list \<times> nat) option" where
  "resolve_link animation frame_idx link_idx mesh_link st =
     (case getitem (triangle_data (mdl st)) (triangles mesh_link) of
        Inl e \<Rightarrow> (print (Error_processing_mesh (anim_name animation) frame_idx link_idx e) st, None)
      | Inr tris \<Rightarrow>
     (case getitem (points_data (mdl st)) (points mesh_link) of
        Inl e \<Rightarrow> (print (Error_processing_mesh (anim_name animation) frame_idx link_idx e) st, None)
      | Inr pts \<Rightarrow>
     (case getitem (texture_coordinates_data (mdl st)) (texture_coordinates mesh_link) of
        Inl e \<Rightarrow> (print (Error_processing_mesh (anim_name animation) frame_idx link_idx e) st, None)
      | Inr tcs \<Rightarrow>
        if pts = [] then
          (print (Empty_points_data (anim_name animation) frame_idx link_idx) st, None)
        else if tris = [] then
          (print (Empty_triangles_data (anim_name animation) frame_idx link_idx) st, None)
        else
          (let vertices = map transform_point pts;
               (st1, tcs1) =
                 (if length tcs \<noteq> length vertices then
                    (let st0 = print (Texture_coordinates_count_mismatch (length tcs)
                                 (length vertices) (anim_name animation) frame_idx link_idx) st
                     in if length tcs < length vertices then
                          (let extended = tcs @ replicate (length vertices - length tcs) (Finite 0, Finite 0)
                           in (st0\<lparr>mdl := (mdl st0)\<lparr>texture_coordinates_data :=
                                  (texture_coordinates_data (mdl st0))
                                    [texture_coordinates mesh_link := extended]\<rparr>\<rparr>,
                               extended))
                        else (st0, take (length vertices) tcs))
                  else (st, tcs));
               vertex_data_start = len_bytes (vertex_byte_array st1)
           in if vertices = [] then
                (print (Empty_mesh_found (anim_name animation) frame_idx link_idx) st1, None)
              else (st1, Some (tris, vertices, tcs1, vertex_data_start))))))"

text \<open>The two packing loops over the vertices and over the texture coordinates.\<close>

definition pack_vertices :: "vec3 list \<Rightarrow> packed list" where
  "pack_vertices vertices =
     concat (map (\<lambda>(x, y, z). [struct_pack_f x, struct_pack_f y, struct_pack_f z]) vertices)"

definition pack_texture_coordinates :: "vec2 list \<Rightarrow> packed list" where
  "pack_texture_coordinates tcs =
     concat (map (\<lambda>(u, v). [struct_pack_f u, struct_pack_f v]) tcs)"

text \<open>
  The name of a material as used in node names: empty when the index is still out of
  range after the fallback, cleaned up otherwise.
\<close>

definition material_name_for :: "model \<Rightarrow> nat \<Rightarrow> string" where
  "material_name_for m material_index =
     (if material_index < length (materials m)
      then clean_up (material_name (materials m ! material_index))
      else [])"

definition make_node_name :: "string \<Rightarrow> nat \<Rightarrow> nat \<Rightarrow> string \<Rightarrow> string" where
  "make_node_name a anim_idx frame_idx mat =
     clean_up (a @ ''_'' @ format_02d anim_idx @ ''_frame'' @ format_02d frame_idx @ ''_'' @ mat)"

text \<open>
  The rest of the link loop's body, after the \<^verbatim>\<open>try\<close> block: it lies outside the
  \<^verbatim>\<open>try\<close>, so an exception here ends the whole call.
\<close>

definition emit_link ::
  "animation \<Rightarrow> nat \<Rightarrow> nat \<Rightarrow> nat \<Rightarrow> mesh_link \<Rightarrow>
   (32 word list \<times> vec3 list \<times> vec2 list \<times> nat) \<Rightarrow> export_state \<Rightarrow> py_error + export_state" where
  "emit_link animation anim_idx frame_idx link_idx mesh_link r st =
     (case r of (tris, vertices, tcs, vertex_data_start) \<Rightarrow>
      (let st1 = st\<lparr>vertex_byte_array := vertex_byte_array st @ pack_vertices vertices\<rparr>
       in case bounds py_min vertices of Inl e \<Rightarrow> Inl e | Inr mins \<Rightarrow>
         (case bounds py_max vertices of Inl e \<Rightarrow> Inl e | Inr maxs \<Rightarrow>
          (let texture_coords_start = len_bytes (vertex_byte_array st1);
               st2 = st1\<lparr>vertex_byte_array :=
                        vertex_byte_array st1 @ pack_texture_coordinates tcs\<rparr>;
               indices_start = len_bytes (index_byte_array st2);
               st3 = st2\<lparr>index_byte_array := index_byte_array st2 @ map Pack_I tris\<rparr>;
               position_index = length (accessors st3);
               st4 = st3\<lparr>accessors := accessors st3 @
                        [\<lparr>bufferView = 0, byteOffset = vertex_data_start, componentType = FLOAT,
                          acc_count = length vertices, acc_type = VEC3,
                          acc_min = Some mins, acc_max = Some maxs\<rparr>]\<rparr>;
               texture_coords_index = length (accessors st4);
               st5 = st4\<lparr>accessors := accessors st4 @
                        [\<lparr>bufferView = 0, byteOffset = texture_coords_start,
                          componentType = FLOAT, acc_count = length tcs, acc_type = VEC2,
                          acc_min = None, acc_max = None\<rparr>]\<rparr>;
               indices_index = length (accessors st5);
               st6 = st5\<lparr>accessors := accessors st5 @
                        [\<lparr>bufferView = 1, byteOffset = indices_start,
                          componentType = UNSIGNED_INT, acc_count = length tris,
                          acc_type = SCALAR, acc_min = None, acc_max = None\<rparr>]\<rparr>;
               (st7, material_index) =
                 (if material mesh_link \<ge> length (materials (mdl st6))
                  then (print (Invalid_material_index (material mesh_link)
                                 (anim_name animation) frame_idx link_idx) st6, 0)
                  else (st6, material mesh_link));
               mesh_index = length (gltf_meshes st7);
               st8 = st7\<lparr>gltf_meshes := gltf_meshes st7 @
                        [\<lparr>primitives = [\<lparr>POSITION = position_index,
                            TEXCOORD_0 = texture_coords_index, indices = indices_index,
                            prim_material = material_index\<rparr>]\<rparr>]\<rparr>;
               mat = material_name_for (mdl st8) material_index;
               nm = make_node_name (anim_name animation) anim_idx frame_idx mat
           in Inr (st8\<lparr>nodes := nodes st8 @ [\<lparr>node_mesh = mesh_index, node_name = nm\<rparr>]\<rparr>)))))"

text \<open>One iteration of the link loop.\<close>

definition process_link ::
  "animation \<Rightarrow> nat \<Rightarrow> nat \<Rightarrow> nat \<times> mesh_link \<Rightarrow> export_state \<Rightarrow> py_error + export_state" where
  "process_link animation anim_idx frame_idx il st =
     (case il of (link_idx, mesh_link) \<Rightarrow>
        (case resolve_link animation frame_idx link_idx mesh_link st of
           (st1, None) \<Rightarrow> Inr st1
         | (st1, Some r) \<Rightarrow> emit_link animation anim_idx frame_idx link_idx mesh_link r st1))"

text \<open>One iteration of the frame loop.\<close>

definition process_frame ::
  "animation \<Rightarrow> nat \<Rightarrow> nat \<times> nat \<Rightarrow> export_state \<Rightarrow> py_error + export_state" where
  "process_frame animation anim_idx fm st =
     (case fm of (frame_idx, mesh_idx) \<Rightarrow>
        if mesh_idx \<ge> length (meshes (mdl st)) then
          Inr (print (Mesh_index_out_of_range mesh_idx (anim_name animation)) st)
        else
          for_each (process_link animation anim_idx frame_idx)
            (enumerate 0 (links (meshes (mdl st) ! mesh_idx))) st)"

text \<open>One iteration of the animation loop.\<close>

definition process_animation :: "nat \<times> animation \<Rightarrow> export_state \<Rightarrow> py_error + export_state" where
  "process_animation ia st =
     (case ia of (anim_idx, animation) \<Rightarrow>
        (let st1 = st\<lparr>anim_name_indexer := index_name (anim_name animation) (anim_name_indexer st)\<rparr>
         in for_each (process_frame animation anim_idx) (enumerate 0 (anim_meshes animation)) st1))"

text \<open>
  \<^verbatim>\<open>export_to_gltf\<close> from the creation of the two byte arrays to the end of the animation
  loop. The copying of texture files before it and the writing of the glTF document after
  it are file operations and are left out; the result is the final state of the variables
  that the document is assembled from, and the model object.
\<close>

definition initial_state :: "model \<Rightarrow> export_state" where
  "initial_state m =
     \<lparr>mdl = m, vertex_byte_array = [], index_byte_array = [], accessors = [],
      gltf_meshes = [], nodes = [], anim_name_indexer = [],
      printed = (if duplicate_names m \<noteq> [] then [Duplicate_animation_names (duplicate_names m)]
                 else [])\<rparr>"

definition export_to_gltf :: "model \<Rightarrow> py_error + export_state" where
  "export_to_gltf m = for_each process_animation (enumerate 0 (animations m)) (initial_state m)"

section \<open>Reading the result\<close>

text \<open>
  The items of a byte array that an accessor covers: \<open>n\<close> four-byte items from byte
  offset \<open>offset\<close>.
\<close>

definition read_items :: "packed list \<Rightarrow> nat \<Rightarrow> nat \<Rightarrow> packed list" where
  "read_items b offset n = take n (drop (offset div 4) b)"

text \<open>
  The accessors that the primitive of the \<open>k\<close>-th mesh names (node \<open>k\<close> refers to mesh
  \<open>k\<close>).
\<close>

definition position_accessor :: "export_state \<Rightarrow> nat \<Rightarrow> accessor" where
  "position_accessor st k = accessors st ! POSITION (hd (primitives (gltf_meshes st ! k)))"

definition texcoord_accessor :: "export_state \<Rightarrow> nat \<Rightarrow> accessor" where
  "texcoord_accessor st k = accessors st ! TEXCOORD_0 (hd (primitives (gltf_meshes st ! k)))"

section \<open>The link occurrences of a model\<close>

text \<open>
  The loops of \<^verbatim>\<open>export_to_gltf\<close> visit every animation, every frame of it whose mesh index
  is in range, and every link of that frame's mesh. An occurrence records one such visit.
  The definitions of this section describe, as functions of the model alone, what the
  serializer is expected to produce; the theorems below relate them to the loops.
\<close>

record occurrence =
  occ_anim_idx :: nat
  occ_animation :: animation
  occ_frame_idx :: nat
  occ_link_idx :: nat
  occ_link :: mesh_link

definition frame_links :: "model \<Rightarrow> nat \<Rightarrow> animation \<Rightarrow> nat \<times> nat \<Rightarrow> occurrence list" where
  "frame_links m anim_idx animation fm =
     (case fm of (frame_idx, mesh_idx) \<Rightarrow>
        if mesh_idx < length (meshes m) then
          map (\<lambda>(link_idx, l). \<lparr>occ_anim_idx = anim_idx, occ_animation = animation,
                 occ_frame_idx = frame_idx, occ_link_idx = link_idx, occ_link = l\<rparr>)
            (enumerate 0 (links (meshes m ! mesh_idx)))
        else [])"

definition animation_links :: "model \<Rightarrow> nat \<times> animation \<Rightarrow> occurrence list" where
  "animation_links m ia =
     (case ia of (anim_idx, animation) \<Rightarrow>
        concat (map (frame_links m anim_idx animation) (enumerate 0 (anim_meshes animation))))"

definition model_links :: "model \<Rightarrow> occurrence list" where
  "model_links m = concat (map (animation_links m) (enumerate 0 (animations m)))"

definition usable :: "model \<Rightarrow> mesh_link \<Rightarrow> bool" where
  "usable m l \<longleftrightarrow>
     triangles l < length (triangle_data m) \<and> points l < length (points_data m) \<and>
     texture_coordinates l < length (texture_coordinates_data m) \<and>
     points_data m ! points l \<noteq> [] \<and> triangle_data m ! triangles l \<noteq> []"

definition emitted_of :: "model \<Rightarrow> occurrence list \<Rightarrow> occurrence list" where
  "emitted_of m os = filter (\<lambda>oc. usable m (occ_link oc)) os"

definition emitted :: "model \<Rightarrow> occurrence list" where
  "emitted m = emitted_of m (model_links m)"

definition link_vertices :: "model \<Rightarrow> mesh_link \<Rightarrow> vec3 list" where
  "link_vertices m l = map transform_point (points_data m ! points l)"

definition reconciled :: "model \<Rightarrow> mesh_link \<Rightarrow> vec2 list" where
  "reconciled m l =
     (let n = length (points_data m ! points l);
          uv = texture_coordinates_data m ! texture_coordinates l
      in take n (uv @ replicate (n - length uv) (Finite 0, Finite 0)))"

definition vertex_items :: "model \<Rightarrow> occurrence \<Rightarrow> packed list" where
  "vertex_items m oc =
     pack_vertices (link_vertices m (occ_link oc)) @
     pack_texture_coordinates (reconciled m (occ_link oc))"

definition index_items :: "model \<Rightarrow> occurrence \<Rightarrow> packed list" where
  "index_items m oc = map Pack_I (triangle_data m ! triangles (occ_link oc))"

definition axis_min :: "vec3 list \<Rightarrow> ieee list" where
  "axis_min vs = (case bounds py_min vs of Inl e \<Rightarrow> [] | Inr b \<Rightarrow> b)"

definition axis_max :: "vec3 list \<Rightarrow> ieee list" where
  "axis_max vs = (case bounds py_max vs of Inl e \<Rightarrow> [] | Inr b \<Rightarrow> b)"

definition link_accessors :: "model \<Rightarrow> occurrence list \<Rightarrow> nat \<Rightarrow> accessor list" where
  "link_accessors m es k =
     (let l = occ_link (es ! k);
          vs = link_vertices m l;
          v0 = len_bytes (concat (map (vertex_items m) (take k es)));
          i0 = len_bytes (concat (map (index_items m) (take k es)))
      in [\<lparr>bufferView = 0, byteOffset = v0, componentType = FLOAT,
            acc_count = length vs, acc_type = VEC3,
            acc_min = Some (axis_min vs), acc_max = Some (axis_max vs)\<rparr>,
          \<lparr>bufferView = 0, byteOffset = v0 + len_bytes (pack_vertices vs),
            componentType = FLOAT, acc_count = length (reconciled m l), acc_type = VEC2,
            acc_min = None, acc_max = None\<rparr>,
          \<lparr>bufferView = 1, byteOffset = i0, componentType = UNSIGNED_INT,
            acc_count = length (triangle_data m ! triangles l), acc_type = SCALAR,
            acc_min = None, acc_max = None\<rparr>])"

definition material_index_for :: "model \<Rightarrow> mesh_link \<Rightarrow> nat" where
  "material_index_for m l = (if material l \<ge> length (materials m) then 0 else material l)"

definition link_mesh :: "model \<Rightarrow> nat \<times> occurrence \<Rightarrow> gltf_mesh" where
  "link_mesh m ko =
     (case ko of (k, oc) \<Rightarrow>
        \<lparr>primitives = [\<lparr>POSITION = 3 * k, TEXCOORD_0 = 3 * k + 1, indices = 3 * k + 2,
           prim_material = material_index_for m (occ_link oc)\<rparr>]\<rparr>)"

definition link_node :: "model \<Rightarrow> nat \<times> occurrence \<Rightarrow> node" where
  "link_node m ko =
     (case ko of (k, oc) \<Rightarrow>
        \<lparr>node_mesh = k,
         node_name = make_node_name (anim_name (occ_animation oc)) (occ_anim_idx oc)
           (occ_frame_idx oc) (material_name_for m (material_index_for m (occ_link oc)))\<rparr>)"

definition skip_message :: "model \<Rightarrow> occurrence \<Rightarrow> message" where
  "skip_message m oc =
     (let l = occ_link oc; a = anim_name (occ_animation oc);
          f = occ_frame_idx oc; i = occ_link_idx oc
      in if \<not> (triangles l < length (triangle_data m) \<and> points l < length (points_data m) \<and>
                texture_coordinates l < length (texture_coordinates_data m))
         then Error_processing_mesh a f i IndexError
         else if points_data m ! points l = [] then Empty_points_data a f i
         else Empty_triangles_data a f i)"

definition material_message :: "occurrence \<Rightarrow> message" where
  "material_message oc =
     Invalid_material_index (material (occ_link oc)) (anim_name (occ_animation oc))
       (occ_frame_idx oc) (occ_link_idx oc)"

definition skipped :: "model \<Rightarrow> occurrence list" where
  "skipped m = filter (\<lambda>oc. \<not> usable m (occ_link oc)) (model_links m)"

text \<open>The frame indices of animation \<open>a\<close> for which at least one node is generated.\<close>

definition frame_groups :: "model \<Rightarrow> nat \<Rightarrow> nat set" where
  "frame_groups m a = set (map occ_frame_idx (filter (\<lambda>oc. occ_anim_idx oc = a) (emitted m)))"

section \<open>The invariant of the loops\<close>

text \<open>
  During a run the model differs from the model \<open>m0\<close> at the start at most in the
  texture coordinate pool, whose entries only ever grow by \<open>(0.0, 0.0)\<close> pairs at the end.
\<close>

definition same_but_uv :: "model \<Rightarrow> model \<Rightarrow> bool" where
  "same_but_uv m0 m \<longleftrightarrow>
     model_name m = model_name m0 \<and> materials m = materials m0 \<and> meshes m = meshes m0 \<and>
     animations m = animations m0 \<and> points_data m = points_data m0 \<and>
     triangle_data m = triangle_data m0 \<and>
     length (texture_coordinates_data m) = length (texture_coordinates_data m0) \<and>
     (\<forall>i < length (texture_coordinates_data m0). \<exists>k.
        texture_coordinates_data m ! i = texture_coordinates_data m0 ! i @ replicate k (Finite 0, Finite 0))"

definition output_of :: "model \<Rightarrow> occurrence list \<Rightarrow> export_state \<Rightarrow> bool" where
  "output_of m es st \<longleftrightarrow>
     vertex_byte_array st = concat (map (vertex_items m) es) \<and>
     index_byte_array st = concat (map (index_items m) es) \<and>
     accessors st = concat (map (link_accessors m es) [0..<length es]) \<and>
     gltf_meshes st = map (link_mesh m) (enumerate 0 es) \<and>
     nodes st = map (link_node m) (enumerate 0 es)"

definition messages_of :: "model \<Rightarrow> occurrence list \<Rightarrow> export_state \<Rightarrow> bool" where
  "messages_of m seen st \<longleftrightarrow>
     (\<forall>oc \<in> set seen. \<not> usable m (occ_link oc) \<longrightarrow> skip_message m oc \<in> set (printed st)) \<and>
     (\<forall>oc \<in> set seen. usable m (occ_link oc) \<and> material (occ_link oc) \<ge> length (materials m) \<longrightarrow>
        material_message oc \<in> set (printed st))"

definition Inv :: "model \<Rightarrow> occurrence list \<Rightarrow> export_state \<Rightarrow> bool" where
  "Inv m seen st \<longleftrightarrow>
     same_but_uv m (mdl st) \<and> output_of m (emitted_of m seen) st \<and> messages_of m seen st"

text \<open>
  What every step of the loops preserves: lines once printed stay printed, and the mesh
  table of the model does not change.
\<close>

definition keeps :: "export_state \<Rightarrow> export_state \<Rightarrow> bool" where
  "keeps s s' \<longleftrightarrow> set (printed s) \<subseteq> set (printed s') \<and> meshes (mdl s') = meshes (mdl s)"

section \<open>Concrete models\<close>

definition skin :: material where
  "skin = \<lparr>material_name = ''skin'', material_path = ''tex'' @ [CHR 0x5C] @ ''skin.tga''\<rparr>"

definition sample :: model where
  "sample = \<lparr>model_name = ''sample'', materials = [skin],
     meshes = [\<lparr>links =
       [\<lparr>material = 0, points = 0, triangles = 0, texture_coordinates = 0\<rparr>,
        \<lparr>material = 1, points = 0, triangles = 0, texture_coordinates = 0\<rparr>,
        \<lparr>material = 0, points = 7, triangles = 0, texture_coordinates = 0\<rparr>,
        \<lparr>material = 0, points = 1, triangles = 0, texture_coordinates = 0\<rparr>]\<rparr>],
     animations = [\<lparr>anim_name = ''walk'', anim_meshes = [0, 7]\<rparr>,
                   \<lparr>anim_name = ''walk'', anim_meshes = [0]\<rparr>],
     points_data = [[(Finite 0, Finite 0, Finite 0), (Finite 1, Finite 0, Finite 0),
                     (Finite 0, Finite 1, Finite 0), (Finite 1, Finite 1, Finite 0),
                     (Finite 0, Finite 0, Finite 1)], []],
     triangle_data = [[0, 1, 2]],
     texture_coordinates_data =
       [[(Finite 0.25, Finite 0.5), (Finite 1, Finite 0), (Finite 0, Finite 1)]]\<rparr>"

definition scenario :: model where
  "scenario = \<lparr>model_name = ''scenario'', materials = [skin],
     meshes = [\<lparr>links = [\<lparr>material = 0, points = 0, triangles = 0, texture_coordinates = 0\<rparr>]\<rparr>],
     animations = [\<lparr>anim_name = ''idle'', anim_meshes = [0]\<rparr>],
     points_data = [[(Finite 0, Finite 0, Finite 0), (Finite 1, Finite 0, Finite 0),
                     (Finite 0, Finite 1, Finite 0)]],
     triangle_data = [[0, 1, 2]],
     texture_coordinates_data =
       [[(Finite 0, Finite 0), (Finite 1, Finite 0), (Finite 0, Finite 1)]]\<rparr>"

definition three_animations :: model where
  "three_animations = scenario\<lparr>animations :=
      [\<lparr>anim_name = ''idle'', anim_meshes = [0]\<rparr>, \<lparr>anim_name = ''walk'', anim_meshes = [0]\<rparr>,
       \<lparr>anim_name = ''walk'', anim_meshes = [0]\<rparr>]\<rparr>"

definition no_materials :: model where
  "no_materials = scenario\<lparr>materials := []\<rparr>"


section \<open>Facts about the float operations\<close>

lemma bit_length_bounds: "n > 0 \<Longrightarrow> 2 ^ (bit_length n - 1) \<le> n \<and> n < 2 ^ bit_length n"
proof (induction n rule: bit_length.induct)
  case (1 n)
  show ?case
  proof (cases "n div 2 = 0")
    case True
    then have "n = 1" using "1.prems" by presburger
    then show ?thesis by (simp add: bit_length.simps)
  next
    case False
    then have ih: "2 ^ (bit_length (n div 2) - 1) \<le> n div 2" "n div 2 < 2 ^ bit_length (n div 2)"
      using "1.IH" "1.prems" by auto
    have pos: "bit_length (n div 2) > 0" using False by (subst bit_length.simps) simp
    have b: "bit_length n = Suc (bit_length (n div 2))"
      using "1.prems" by (subst bit_length.simps) simp
    have "2 * 2 ^ (bit_length (n div 2) - 1) \<le> n" using ih(1) by linarith
    moreover have "2 * 2 ^ (bit_length (n div 2) - 1) = (2::nat) ^ bit_length (n div 2)"
      using pos by (metis Suc_pred' power_Suc)
    moreover have "n < 2 * 2 ^ bit_length (n div 2)" using ih(2) by linarith
    ultimately show ?thesis by (simp add: b)
  qed
qed

lemma bit_length_pos: "n > 0 \<Longrightarrow> bit_length n > 0"
  by (subst bit_length.simps) simp

lemma bit_length_bounds_real:
  assumes "n > 0"
  shows "(2::real) ^ (bit_length n - 1) \<le> real n" and "real n + 1 \<le> 2 ^ bit_length n"
proof -
  from bit_length_bounds [OF assms] have lo: "2 ^ (bit_length n - 1) \<le> n"
    and hi: "Suc n \<le> 2 ^ bit_length n"
    by auto
  show "(2::real) ^ (bit_length n - 1) \<le> real n"
    using lo by (metis of_nat_le_iff of_nat_numeral of_nat_power)
  have "real (Suc n) \<le> 2 ^ bit_length n"
    using hi by (metis of_nat_le_iff of_nat_numeral of_nat_power)
  then show "real n + 1 \<le> 2 ^ bit_length n" by simp
qed

lemma floor_log2_bounds:
  assumes "x > 0"
  shows "pow2 (floor_log2 x) \<le> x \<and> x < pow2 (floor_log2 x + 1)"
proof (cases "x \<ge> 1")
  case True
  let ?n = "nat \<lfloor>x\<rfloor>"
  have f: "\<lfloor>x\<rfloor> \<ge> 1" using True by linarith
  then have n: "?n > 0" by linarith
  have rn: "real ?n = of_int \<lfloor>x\<rfloor>" using f by simp
  have b: "bit_length ?n > 0" using n by (rule bit_length_pos)
  have 1: "2 ^ (bit_length ?n - 1) \<le> x"
    using bit_length_bounds_real(1) [OF n] rn by linarith
  have 2: "x < 2 ^ bit_length ?n"
    using bit_length_bounds_real(2) [OF n] rn by linarith
  have e: "floor_log2 x = int (bit_length ?n) - 1" using True by (simp add: floor_log2_def)
  have "nat (int (bit_length ?n) - 1) = bit_length ?n - 1" by simp
  moreover have "nat (int (bit_length ?n) - 1 + 1) = bit_length ?n" by simp
  moreover have "int (bit_length ?n) - 1 \<ge> 0" using b by simp
  ultimately show ?thesis using 1 2 unfolding e pow2_def by simp
next
  case False
  let ?y = "1 / x"
  let ?m = "nat (\<lceil>?y\<rceil> - 1)"
  have y: "?y > 1" using False assms by simp
  then have c: "\<lceil>?y\<rceil> \<ge> 2" by linarith
  then have m: "?m > 0" by linarith
  have "\<lceil>?y\<rceil> - 1 \<ge> 0" using c by linarith
  then have "real ?m = of_int (\<lceil>?y\<rceil> - 1)" by (rule of_nat_nat)
  then have rm: "real ?m = of_int \<lceil>?y\<rceil> - 1" by simp
  have b: "bit_length ?m > 0" using m by (rule bit_length_pos)
  have 1: "2 ^ (bit_length ?m - 1) < ?y"
    using bit_length_bounds_real(1) [OF m] rm by linarith
  have 2: "?y \<le> 2 ^ bit_length ?m"
    using bit_length_bounds_real(2) [OF m] rm by linarith
  have e: "floor_log2 x = - int (bit_length ?m)" using False by (simp add: floor_log2_def)
  have 3: "1 / 2 ^ bit_length ?m \<le> x"
    using 2 assms by (simp add: field_simps)
  have 4: "x < 1 / 2 ^ (bit_length ?m - 1)"
    using 1 assms by (simp add: field_simps)
  show ?thesis
  proof (cases "bit_length ?m = 1")
    case True
    then show ?thesis using 3 4 unfolding e pow2_def by simp
  next
    case F: False
    then have "\<not> - int (bit_length ?m) + 1 \<ge> 0" using b by linarith
    moreover have "nat (- (- int (bit_length ?m) + 1)) = bit_length ?m - 1" by simp
    moreover have "\<not> - int (bit_length ?m) \<ge> 0" using b by linarith
    ultimately show ?thesis using 3 4 unfolding e pow2_def by simp
  qed
qed

lemma round_half_even_near: "\<bar>of_int (round_half_even x) - x\<bar> \<le> 1 / 2"
  unfolding round_half_even_def Let_def by (auto simp: abs_if) linarith+

lemmas float_eval = round_binary32_def round_binary64_def round_binary_def floor_log2_def
  bit_length.simps pow2_def round_half_even_def py_sub_def py_mul_def
  to_real_def is_inf_def is_zero_def is_negative_def struct_pack_f_def

text \<open>
  Some roundings: 0.1 as a double and as a binary32 number, a tie, the largest finite
  binary32 number and the overflow threshold above it, and the underflow to a signed zero.
\<close>

lemma rounding_examples:
  "round_binary64 (1 / 10) = Finite (3602879701896397 / 36028797018963968)"
  "round_binary32 (1 / 10) = Finite (13421773 / 134217728)"
  "round_binary32 (16777217) = Finite 16777216"
  "round_binary32 (16777219) = Finite 16777220"
  "round_binary32 (340282356779733661637539395458142568447)
     = Finite 340282346638528859811704183484516925440"
  "round_binary32 (340282356779733661637539395458142568448) = Pos_inf"
  "round_binary32 (- (2 ^ 128)) = Neg_inf"
  "round_binary32 (- 1 / 2 ^ 150) = Neg_zero"
  "round_binary32 (3 / 2 ^ 150) = Finite (1 / 2 ^ 148)"
  by (simp_all add: float_eval)

section \<open>Basic facts\<close>

lemma for_each_invariant:
  assumes step: "\<And>x seen s. x \<in> set xs \<Longrightarrow> P seen s \<Longrightarrow> \<exists>s'. body x s = Inr s' \<and> P (seen @ f x) s'"
    and start: "P seen s"
  shows "\<exists>s'. for_each body xs s = Inr s' \<and> P (seen @ concat (map f xs)) s'"
  using assms
proof (induction xs arbitrary: seen s)
  case Nil
  then show ?case by simp
next
  case (Cons x xs)
  from Cons.prems obtain s1 where s1: "body x s = Inr s1" "P (seen @ f x) s1"
    by (meson list.set_intros(1))
  have "\<exists>s'. for_each body xs s1 = Inr s' \<and> P ((seen @ f x) @ concat (map f xs)) s'"
    by (rule Cons.IH) (use Cons.prems s1 in auto)
  with s1 show ?case by simp
qed

lemma bounds_min: "vs \<noteq> [] \<Longrightarrow> bounds py_min vs = Inr (axis_min vs)"
  by (cases vs) (simp_all add: bounds_def axis_min_def)

lemma bounds_max: "vs \<noteq> [] \<Longrightarrow> bounds py_max vs = Inr (axis_max vs)"
  by (cases vs) (simp_all add: bounds_def axis_max_def)

lemma pad_again:
  "take n ((u @ replicate k z) @ replicate (n - length (u @ replicate k z)) z)
   = take n (u @ replicate (n - length u) z)"
proof (cases "n \<le> length u")
  case True
  then show ?thesis by simp
next
  case False
  then have "replicate k z @ replicate (n - (length u + k)) z
             = replicate (n - length u) z @ replicate (k + (n - (length u + k)) - (n - length u)) z"
    by (simp add: replicate_add [symmetric] del: replicate_add)
  then show ?thesis using False by simp
qed

section \<open>One link\<close>

lemma resolve_link_skip:
  assumes "same_but_uv m0 (mdl st)" and "\<not> usable m0 l"
  shows "resolve_link a f i l st =
    (print (skip_message m0 \<lparr>occ_anim_idx = x, occ_animation = a, occ_frame_idx = f,
       occ_link_idx = i, occ_link = l\<rparr>) st, None)"
  using assms
  by (auto simp: resolve_link_def getitem_def same_but_uv_def usable_def skip_message_def)

text \<open>
  The \<^verbatim>\<open>try\<close> block ends in a \<^verbatim>\<open>continue\<close> exactly for the links that are not usable
  in the current model.
\<close>

lemma resolve_link_continue_iff:
  "snd (resolve_link a f i l st) = None \<longleftrightarrow> \<not> usable (mdl st) l"
  by (auto simp: resolve_link_def getitem_def usable_def Let_def print_def
      split: sum.splits if_splits prod.splits)

lemma same_but_uv_extend:
  assumes s: "same_but_uv m0 m" and j: "j < length (texture_coordinates_data m)"
  shows "same_but_uv m0 (m\<lparr>texture_coordinates_data :=
           (texture_coordinates_data m)[j := texture_coordinates_data m ! j @ replicate d (Finite 0, Finite 0)]\<rparr>)"
proof -
  have "\<exists>k. (texture_coordinates_data m)[j := texture_coordinates_data m ! j @ replicate d (Finite 0, Finite 0)] ! i
           = texture_coordinates_data m0 ! i @ replicate k (Finite 0, Finite 0)"
    if i: "i < length (texture_coordinates_data m0)" for i
  proof -
    from s i obtain k where k: "texture_coordinates_data m ! i
        = texture_coordinates_data m0 ! i @ replicate k (Finite 0, Finite 0)"
      by (auto simp: same_but_uv_def)
    show ?thesis
    proof (cases "i = j")
      case True
      then have "(texture_coordinates_data m)[j := texture_coordinates_data m ! j @ replicate d (Finite 0, Finite 0)] ! i
          = texture_coordinates_data m0 ! i @ replicate (k + d) (Finite 0, Finite 0)"
        using j k by (simp add: replicate_add)
      then show ?thesis ..
    next
      case False
      then show ?thesis using k by auto
    qed
  qed
  then show ?thesis using s by (simp add: same_but_uv_def)
qed

lemma resolve_link_ok:
  assumes s: "same_but_uv m0 (mdl st)" and u: "usable m0 l"
  shows "\<exists>m1 p. resolve_link a f i l st =
      (st\<lparr>mdl := m1, printed := printed st @ p\<rparr>,
       Some (triangle_data m0 ! triangles l, link_vertices m0 l, reconciled m0 l,
             len_bytes (vertex_byte_array st)))
      \<and> same_but_uv m0 m1"
proof -
  let ?cur = "texture_coordinates_data (mdl st) ! texture_coordinates l"
  let ?n = "length (points_data m0 ! points l)"
  from s u obtain k where k: "?cur
      = texture_coordinates_data m0 ! texture_coordinates l @ replicate k (Finite 0, Finite 0)"
    by (auto simp: same_but_uv_def usable_def)
  have rec: "take ?n (?cur @ replicate (?n - length ?cur) (Finite 0, Finite 0)) = reconciled m0 l"
    unfolding k reconciled_def Let_def by (rule pad_again)
  have j: "texture_coordinates l < length (texture_coordinates_data (mdl st))"
    using s u by (simp add: same_but_uv_def usable_def)
  have pts: "points_data (mdl st) = points_data m0" "triangle_data (mdl st) = triangle_data m0"
    using s by (simp_all add: same_but_uv_def)
  have ne: "points_data m0 ! points l \<noteq> []" "triangle_data m0 ! triangles l \<noteq> []"
    "triangles l < length (triangle_data m0)" "points l < length (points_data m0)"
    using u by (simp_all add: usable_def)
  consider (eq) "length ?cur = ?n" | (lt) "length ?cur < ?n" | (gt) "length ?cur > ?n"
    by linarith
  then show ?thesis
  proof cases
    case eq
    then have "reconciled m0 l = ?cur" using rec by simp
    then have "resolve_link a f i l st =
      (st\<lparr>mdl := mdl st, printed := printed st @ []\<rparr>,
       Some (triangle_data m0 ! triangles l, link_vertices m0 l, reconciled m0 l,
             len_bytes (vertex_byte_array st)))"
      using eq j pts ne by (simp add: resolve_link_def getitem_def link_vertices_def)
    with s show ?thesis by blast
  next
    case lt
    let ?ext = "?cur @ replicate (?n - length ?cur) (Finite 0, Finite 0)"
    let ?m1 = "(mdl st)\<lparr>texture_coordinates_data :=
                 (texture_coordinates_data (mdl st))[texture_coordinates l := ?ext]\<rparr>"
    from lt have "reconciled m0 l = ?ext" using rec by simp
    then have "resolve_link a f i l st =
      (st\<lparr>mdl := ?m1, printed := printed st @
          [Texture_coordinates_count_mismatch (length ?cur) ?n (anim_name a) f i]\<rparr>,
       Some (triangle_data m0 ! triangles l, link_vertices m0 l, reconciled m0 l,
             len_bytes (vertex_byte_array st)))"
      using lt j pts ne
      by (simp add: resolve_link_def getitem_def link_vertices_def print_def Let_def)
    moreover have "same_but_uv m0 ?m1" using s j by (rule same_but_uv_extend)
    ultimately show ?thesis by blast
  next
    case gt
    from gt have "reconciled m0 l = take ?n ?cur" using rec by simp
    then have "resolve_link a f i l st =
      (st\<lparr>mdl := mdl st, printed := printed st @
          [Texture_coordinates_count_mismatch (length ?cur) ?n (anim_name a) f i]\<rparr>,
       Some (triangle_data m0 ! triangles l, link_vertices m0 l, reconciled m0 l,
             len_bytes (vertex_byte_array st)))"
      using gt j pts ne
      by (simp add: resolve_link_def getitem_def link_vertices_def print_def Let_def)
    with s show ?thesis by blast
  qed
qed

lemma emit_link_ok:
  assumes "vs \<noteq> []"
  shows "emit_link a x f i l (tris, vs, tcs, v0) st =
    Inr (st\<lparr>vertex_byte_array :=
               vertex_byte_array st @ pack_vertices vs @ pack_texture_coordinates tcs,
             index_byte_array := index_byte_array st @ map Pack_I tris,
             accessors := accessors st @
               [\<lparr>bufferView = 0, byteOffset = v0, componentType = FLOAT,
                 acc_count = length vs, acc_type = VEC3,
                 acc_min = Some (axis_min vs), acc_max = Some (axis_max vs)\<rparr>,
                \<lparr>bufferView = 0,
                 byteOffset = len_bytes (vertex_byte_array st @ pack_vertices vs),
                 componentType = FLOAT, acc_count = length tcs, acc_type = VEC2,
                 acc_min = None, acc_max = None\<rparr>,
                \<lparr>bufferView = 1, byteOffset = len_bytes (index_byte_array st),
                 componentType = UNSIGNED_INT, acc_count = length tris, acc_type = SCALAR,
                 acc_min = None, acc_max = None\<rparr>],
             printed := printed st @
               (if material l \<ge> length (materials (mdl st))
                then [Invalid_material_index (material l) (anim_name a) f i] else []),
             gltf_meshes := gltf_meshes st @
               [\<lparr>primitives = [\<lparr>POSITION = length (accessors st),
                   TEXCOORD_0 = length (accessors st) + 1,
                   indices = length (accessors st) + 2,
                   prim_material = material_index_for (mdl st) l\<rparr>]\<rparr>],
             nodes := nodes st @
               [\<lparr>node_mesh = length (gltf_meshes st),
                 node_name = make_node_name (anim_name a) x f
                   (material_name_for (mdl st) (material_index_for (mdl st) l))\<rparr>]\<rparr>)"
  using assms
  by (simp add: emit_link_def bounds_min bounds_max Let_def print_def material_index_for_def
      material_name_for_def)

lemma link_accessors_append:
  "k < length es \<Longrightarrow> link_accessors m (es @ es') k = link_accessors m es k"
  by (simp add: link_accessors_def nth_append)

lemma length_link_accessors: "length (link_accessors m es k) = 3"
  by (simp add: link_accessors_def Let_def)

lemma length_concat_accessors:
  "length (concat (map (link_accessors m es) [0..<n])) = 3 * n"
  by (induction n) (simp_all add: length_link_accessors)

lemma accessors_snoc:
  "concat (map (link_accessors m (es @ [oc])) [0..<Suc (length es)]) =
   concat (map (link_accessors m es) [0..<length es]) @ link_accessors m (es @ [oc]) (length es)"
proof -
  have "concat (map (link_accessors m (es @ [oc])) [0..<length es])
      = concat (map (link_accessors m es) [0..<length es])"
    by (rule arg_cong [where f = concat], rule map_cong) (simp_all add: link_accessors_append)
  then show ?thesis by simp
qed

lemma output_of_emit:
  assumes out: "output_of m es st" and mat: "materials m1 = materials m"
    and V: "vertex_byte_array st' = vertex_byte_array st @
          pack_vertices (link_vertices m (occ_link oc)) @
          pack_texture_coordinates (reconciled m (occ_link oc))"
    and I: "index_byte_array st' = index_byte_array st @
          map Pack_I (triangle_data m ! triangles (occ_link oc))"
    and A: "accessors st' = accessors st @
          [\<lparr>bufferView = 0, byteOffset = len_bytes (vertex_byte_array st), componentType = FLOAT,
            acc_count = length (link_vertices m (occ_link oc)), acc_type = VEC3,
            acc_min = Some (axis_min (link_vertices m (occ_link oc))),
            acc_max = Some (axis_max (link_vertices m (occ_link oc)))\<rparr>,
           \<lparr>bufferView = 0,
            byteOffset = len_bytes (vertex_byte_array st @
              pack_vertices (link_vertices m (occ_link oc))),
            componentType = FLOAT, acc_count = length (reconciled m (occ_link oc)),
            acc_type = VEC2, acc_min = None, acc_max = None\<rparr>,
           \<lparr>bufferView = 1, byteOffset = len_bytes (index_byte_array st),
            componentType = UNSIGNED_INT,
            acc_count = length (triangle_data m ! triangles (occ_link oc)), acc_type = SCALAR,
            acc_min = None, acc_max = None\<rparr>]"
    and G: "gltf_meshes st' = gltf_meshes st @
          [\<lparr>primitives = [\<lparr>POSITION = length (accessors st),
              TEXCOORD_0 = length (accessors st) + 1,
              indices = length (accessors st) + 2,
              prim_material = material_index_for m1 (occ_link oc)\<rparr>]\<rparr>]"
    and N: "nodes st' = nodes st @
          [\<lparr>node_mesh = length (gltf_meshes st),
            node_name = make_node_name (anim_name (occ_animation oc)) (occ_anim_idx oc)
              (occ_frame_idx oc)
              (material_name_for m1 (material_index_for m1 (occ_link oc)))\<rparr>]"
  shows "output_of m (es @ [oc]) st'"
proof -
  have la: "length (accessors st) = 3 * length es"
    using out by (simp add: output_of_def length_concat_accessors)
  have lm: "length (gltf_meshes st) = length es"
    using out by (simp add: output_of_def)
  have mi: "material_index_for m1 = material_index_for m"
    using mat by (simp add: material_index_for_def fun_eq_iff)
  have mn: "material_name_for m1 = material_name_for m"
    using mat by (simp add: material_name_for_def fun_eq_iff)
  have v: "vertex_byte_array st = concat (map (vertex_items m) es)"
    and i: "index_byte_array st = concat (map (index_items m) es)"
    using out by (simp_all add: output_of_def)
  have acc: "link_accessors m (es @ [oc]) (length es) =
     [\<lparr>bufferView = 0, byteOffset = len_bytes (vertex_byte_array st), componentType = FLOAT,
            acc_count = length (link_vertices m (occ_link oc)), acc_type = VEC3,
            acc_min = Some (axis_min (link_vertices m (occ_link oc))),
            acc_max = Some (axis_max (link_vertices m (occ_link oc)))\<rparr>,
           \<lparr>bufferView = 0,
            byteOffset = len_bytes (vertex_byte_array st @
              pack_vertices (link_vertices m (occ_link oc))),
            componentType = FLOAT, acc_count = length (reconciled m (occ_link oc)),
            acc_type = VEC2, acc_min = None, acc_max = None\<rparr>,
           \<lparr>bufferView = 1, byteOffset = len_bytes (index_byte_array st),
            componentType = UNSIGNED_INT,
            acc_count = length (triangle_data m ! triangles (occ_link oc)), acc_type = SCALAR,
            acc_min = None, acc_max = None\<rparr>]"
    by (simp add: link_accessors_def Let_def v i len_bytes_def)
  have a: "accessors st = concat (map (link_accessors m es) [0..<length es])"
    and g: "gltf_meshes st = map (link_mesh m) (enumerate 0 es)"
    and n: "nodes st = map (link_node m) (enumerate 0 es)"
    using out by (simp_all add: output_of_def)
  have v': "concat (map (vertex_items m) (es @ [oc])) = vertex_byte_array st @
          pack_vertices (link_vertices m (occ_link oc)) @
          pack_texture_coordinates (reconciled m (occ_link oc))"
    by (simp add: v vertex_items_def)
  have i': "concat (map (index_items m) (es @ [oc])) = index_byte_array st @
          map Pack_I (triangle_data m ! triangles (occ_link oc))"
    by (simp add: i index_items_def)
  have a': "concat (map (link_accessors m (es @ [oc])) [0..<length (es @ [oc])])
      = accessors st @ link_accessors m (es @ [oc]) (length es)"
    using accessors_snoc [of m es oc] by (simp add: a)
  have g': "map (link_mesh m) (enumerate 0 (es @ [oc])) = gltf_meshes st @
      [\<lparr>primitives = [\<lparr>POSITION = length (accessors st),
              TEXCOORD_0 = length (accessors st) + 1,
              indices = length (accessors st) + 2,
              prim_material = material_index_for m1 (occ_link oc)\<rparr>]\<rparr>]"
    by (simp add: enumerate_append_eq g la mi link_mesh_def)
  have n': "map (link_node m) (enumerate 0 (es @ [oc])) = nodes st @
          [\<lparr>node_mesh = length (gltf_meshes st),
            node_name = make_node_name (anim_name (occ_animation oc)) (occ_anim_idx oc)
              (occ_frame_idx oc)
              (material_name_for m1 (material_index_for m1 (occ_link oc)))\<rparr>]"
    by (simp add: enumerate_append_eq n lm mi mn link_node_def)
  show ?thesis
    unfolding output_of_def v' i' a' g' n' acc V I A G N by simp
qed

lemma Inv_print: "Inv m seen st \<Longrightarrow> Inv m seen (print w st)"
  by (auto simp: Inv_def print_def output_of_def messages_of_def)

lemma Inv_indexer: "Inv m seen st \<Longrightarrow> Inv m seen (st\<lparr>anim_name_indexer := d\<rparr>)"
  by (auto simp: Inv_def output_of_def messages_of_def)

lemma process_link_Inv:
  assumes inv: "Inv m seen st"
  shows "\<exists>st'. process_link a x f (i, l) st = Inr st' \<and>
    Inv m (seen @ [\<lparr>occ_anim_idx = x, occ_animation = a, occ_frame_idx = f,
                    occ_link_idx = i, occ_link = l\<rparr>]) st'"
proof -
  let ?oc = "\<lparr>occ_anim_idx = x, occ_animation = a, occ_frame_idx = f,
              occ_link_idx = i, occ_link = l\<rparr>"
  from inv have s: "same_but_uv m (mdl st)" and out: "output_of m (emitted_of m seen) st"
    and msg: "messages_of m seen st"
    by (simp_all add: Inv_def)
  show ?thesis
  proof (cases "usable m l")
    case False
    have r: "process_link a x f (i, l) st = Inr (print (skip_message m ?oc) st)"
      using resolve_link_skip [OF s False, of a f i x] by (simp add: process_link_def)
    have "Inv m (seen @ [?oc]) (print (skip_message m ?oc) st)"
      using s out msg False
      by (auto simp: Inv_def print_def output_of_def messages_of_def emitted_of_def)
    with r show ?thesis by simp
  next
    case True
    from resolve_link_ok [OF s True, of a f i] obtain m1 p where
      r: "resolve_link a f i l st =
            (st\<lparr>mdl := m1, printed := printed st @ p\<rparr>,
             Some (triangle_data m ! triangles l, link_vertices m l, reconciled m l,
                   len_bytes (vertex_byte_array st)))"
      and s1: "same_but_uv m m1"
      by blast
    have ne: "link_vertices m l \<noteq> []"
      using True by (simp add: usable_def link_vertices_def)
    let ?st1 = "st\<lparr>mdl := m1, printed := printed st @ p\<rparr>"
    obtain st' where e: "emit_link a x f i l (triangle_data m ! triangles l, link_vertices m l,
        reconciled m l, len_bytes (vertex_byte_array st)) ?st1 = Inr st'"
      using emit_link_ok [OF ne] by blast
    have e': "st' = ?st1\<lparr>vertex_byte_array :=
               vertex_byte_array ?st1 @ pack_vertices (link_vertices m l) @
                 pack_texture_coordinates (reconciled m l),
             index_byte_array := index_byte_array ?st1 @ map Pack_I (triangle_data m ! triangles l),
             accessors := accessors ?st1 @
               [\<lparr>bufferView = 0, byteOffset = len_bytes (vertex_byte_array st), componentType = FLOAT,
                 acc_count = length (link_vertices m l), acc_type = VEC3,
                 acc_min = Some (axis_min (link_vertices m l)),
                 acc_max = Some (axis_max (link_vertices m l))\<rparr>,
                \<lparr>bufferView = 0,
                 byteOffset = len_bytes (vertex_byte_array ?st1 @ pack_vertices (link_vertices m l)),
                 componentType = FLOAT, acc_count = length (reconciled m l), acc_type = VEC2,
                 acc_min = None, acc_max = None\<rparr>,
                \<lparr>bufferView = 1, byteOffset = len_bytes (index_byte_array ?st1),
                 componentType = UNSIGNED_INT, acc_count = length (triangle_data m ! triangles l),
                 acc_type = SCALAR, acc_min = None, acc_max = None\<rparr>],
             printed := printed ?st1 @
               (if material l \<ge> length (materials (mdl ?st1))
                then [Invalid_material_index (material l) (anim_name a) f i] else []),
             gltf_meshes := gltf_meshes ?st1 @
               [\<lparr>primitives = [\<lparr>POSITION = length (accessors ?st1),
                   TEXCOORD_0 = length (accessors ?st1) + 1,
                   indices = length (accessors ?st1) + 2,
                   prim_material = material_index_for (mdl ?st1) l\<rparr>]\<rparr>],
             nodes := nodes ?st1 @
               [\<lparr>node_mesh = length (gltf_meshes ?st1),
                 node_name = make_node_name (anim_name a) x f
                   (material_name_for (mdl ?st1) (material_index_for (mdl ?st1) l))\<rparr>]\<rparr>"
      using e unfolding emit_link_ok [OF ne] by simp
    have mat: "materials m1 = materials m"
      using s1 by (simp add: same_but_uv_def)
    have p: "process_link a x f (i, l) st = Inr st'"
      using r e by (simp add: process_link_def)
    have em: "emitted_of m (seen @ [?oc]) = emitted_of m seen @ [?oc]"
      using True by (simp add: emitted_of_def)
    have o': "output_of m (emitted_of m seen @ [?oc]) st'"
      by (rule output_of_emit [OF out mat]) (simp_all add: e')
    have m': "mdl st' = m1" by (simp add: e')
    have pr: "printed st' = printed st @ p @
               (if material l \<ge> length (materials m)
                then [Invalid_material_index (material l) (anim_name a) f i] else [])"
      by (simp add: e' mat)
    have "messages_of m (seen @ [?oc]) st'"
      using msg True unfolding messages_of_def pr
      by (auto simp: material_message_def)
    with o' s1 m' em have "Inv m (seen @ [?oc]) st'"
      by (simp add: Inv_def)
    with p show ?thesis by blast
  qed
qed

section \<open>The three loops\<close>

lemma concat_singletons: "concat (map (\<lambda>x. [g x]) xs) = map g xs"
  by (induction xs) simp_all

lemma links_loop_Inv:
  assumes inv: "Inv m seen st"
  shows "\<exists>st'. for_each (process_link a x f) (enumerate 0 ls) st = Inr st' \<and>
    Inv m (seen @ map (\<lambda>(i, l). \<lparr>occ_anim_idx = x, occ_animation = a, occ_frame_idx = f,
                    occ_link_idx = i, occ_link = l\<rparr>) (enumerate 0 ls)) st'"
proof -
  let ?g = "\<lambda>(i, l). \<lparr>occ_anim_idx = x, occ_animation = a, occ_frame_idx = f,
                    occ_link_idx = i, occ_link = l\<rparr>"
  have "\<exists>st'. for_each (process_link a x f) (enumerate 0 ls) st = Inr st' \<and>
      Inv m (seen @ concat (map (\<lambda>il. [?g il]) (enumerate 0 ls))) st'"
  proof (rule for_each_invariant [where P = "Inv m"])
    fix il seen' s
    assume "Inv m seen' s"
    then show "\<exists>s'. process_link a x f il s = Inr s' \<and> Inv m (seen' @ [?g il]) s'"
      using process_link_Inv [of m seen' s a x f "fst il" "snd il"]
      by (cases il) simp
  qed (rule inv)
  then show ?thesis by (simp only: concat_singletons)
qed

lemma process_frame_Inv:
  assumes inv: "Inv m seen st"
  shows "\<exists>st'. process_frame a x fm st = Inr st' \<and> Inv m (seen @ frame_links m x a fm) st'"
proof (cases fm)
  case (Pair f mi)
  from inv have ms: "meshes (mdl st) = meshes m"
    by (simp add: Inv_def same_but_uv_def)
  show ?thesis
  proof (cases "mi < length (meshes m)")
    case True
    then show ?thesis
      using links_loop_Inv [OF inv, of a x f "links (meshes m ! mi)"] Pair ms
      by (simp add: process_frame_def frame_links_def)
  next
    case False
    then show ?thesis
      using Inv_print [OF inv] Pair ms
      by (simp add: process_frame_def frame_links_def)
  qed
qed

lemma process_animation_Inv:
  assumes inv: "Inv m seen st"
  shows "\<exists>st'. process_animation ia st = Inr st' \<and> Inv m (seen @ animation_links m ia) st'"
proof (cases ia)
  case (Pair x a)
  let ?st1 = "st\<lparr>anim_name_indexer := index_name (anim_name a) (anim_name_indexer st)\<rparr>"
  have "\<exists>st'. for_each (process_frame a x) (enumerate 0 (anim_meshes a)) ?st1 = Inr st' \<and>
      Inv m (seen @ concat (map (frame_links m x a) (enumerate 0 (anim_meshes a)))) st'"
  proof (rule for_each_invariant [where P = "Inv m"])
    fix fm seen' s
    assume "Inv m seen' s"
    then show "\<exists>s'. process_frame a x fm s = Inr s' \<and> Inv m (seen' @ frame_links m x a fm) s'"
      by (rule process_frame_Inv)
  qed (rule Inv_indexer [OF inv])
  then show ?thesis using Pair
    by (simp add: process_animation_def animation_links_def Let_def)
qed

lemma same_but_uv_refl: "same_but_uv m m"
proof -
  have "\<exists>k. texture_coordinates_data m ! i = texture_coordinates_data m ! i @ replicate k (Finite 0, Finite 0)" for i
    by (rule exI [of _ 0]) simp
  then show ?thesis by (simp add: same_but_uv_def)
qed

lemma Inv_initial: "Inv m [] (initial_state m)"
  by (simp add: Inv_def same_but_uv_refl output_of_def messages_of_def emitted_of_def
      initial_state_def)

lemma export_to_gltf_Inv:
  "\<exists>st. export_to_gltf m = Inr st \<and> Inv m (model_links m) st"
proof -
  have "\<exists>st'. for_each process_animation (enumerate 0 (animations m)) (initial_state m) = Inr st' \<and>
      Inv m ([] @ concat (map (animation_links m) (enumerate 0 (animations m)))) st'"
  proof (rule for_each_invariant [where P = "Inv m"])
    fix ia seen' s
    assume "Inv m seen' s"
    then show "\<exists>s'. process_animation ia s = Inr s' \<and> Inv m (seen' @ animation_links m ia) s'"
      by (rule process_animation_Inv)
  qed (rule Inv_initial)
  then show ?thesis by (simp add: export_to_gltf_def model_links_def)
qed

section \<open>Printed lines stay\<close>

lemma keeps_refl: "keeps s s"
  by (simp add: keeps_def)

lemma keeps_trans: "keeps s s1 \<Longrightarrow> keeps s1 s2 \<Longrightarrow> keeps s s2"
  by (auto simp: keeps_def)

lemma keeps_print: "keeps s (print w s)"
  by (auto simp: keeps_def print_def)

lemma resolve_link_keeps: "keeps st (fst (resolve_link a f i l st))"
  by (auto simp: resolve_link_def keeps_def print_def Let_def split: sum.splits)

lemma emit_link_keeps: "emit_link a x f i l r st = Inr st' \<Longrightarrow> keeps st st'"
  by (cases r) (auto simp: emit_link_def keeps_def print_def Let_def split: sum.splits if_splits)

lemma process_link_keeps: "process_link a x f il st = Inr st' \<Longrightarrow> keeps st st'"
proof (cases il)
  case (Pair i l)
  assume p: "process_link a x f il st = Inr st'"
  obtain st1 r where r: "resolve_link a f i l st = (st1, r)" by (cases "resolve_link a f i l st")
  have k1: "keeps st st1" using resolve_link_keeps [of st a f i l] r by simp
  show ?thesis
  proof (cases r)
    case None
    then show ?thesis using p r k1 Pair by (simp add: process_link_def)
  next
    case (Some v)
    then have "emit_link a x f i l v st1 = Inr st'" using p r Pair by (simp add: process_link_def)
    then show ?thesis using k1 keeps_trans emit_link_keeps by blast
  qed
qed

lemma for_each_keeps:
  assumes "\<And>y s s'. body y s = Inr s' \<Longrightarrow> keeps s s'"
    and "for_each body xs s = Inr s'"
  shows "keeps s s'"
  using assms(2)
proof (induction xs arbitrary: s)
  case Nil
  then show ?case by (simp add: keeps_refl)
next
  case (Cons x xs)
  then obtain s1 where "body x s = Inr s1" "for_each body xs s1 = Inr s'"
    by (auto split: sum.splits)
  then show ?case using assms(1) Cons.IH keeps_trans by blast
qed

lemma process_frame_keeps: "process_frame a x fm st = Inr st' \<Longrightarrow> keeps st st'"
  by (cases fm) (auto simp: process_frame_def keeps_print
      intro: for_each_keeps [OF process_link_keeps] split: if_splits)

lemma process_animation_keeps: "process_animation ia st = Inr st' \<Longrightarrow> keeps st st'"
proof (cases ia)
  case (Pair x a)
  assume "process_animation ia st = Inr st'"
  then have "keeps (st\<lparr>anim_name_indexer := index_name (anim_name a) (anim_name_indexer st)\<rparr>) st'"
    using Pair for_each_keeps [OF process_frame_keeps]
    by (simp add: process_animation_def Let_def)
  then show ?thesis by (simp add: keeps_def)
qed

text \<open>An iteration that prints a message leaves it in the output of the whole loop.\<close>

lemma for_each_prints:
  assumes k: "\<And>y s s'. body y s = Inr s' \<Longrightarrow> keeps s s'"
    and at: "\<And>s s'. body x s = Inr s' \<Longrightarrow> meshes (mdl s) = ms \<Longrightarrow> w \<in> set (printed s')"
    and run: "for_each body xs s = Inr s'" and x: "x \<in> set xs" and ms: "meshes (mdl s) = ms"
  shows "w \<in> set (printed s')"
  using run x ms
proof (induction xs arbitrary: s)
  case Nil
  then show ?case by simp
next
  case (Cons y ys)
  then obtain s1 where s1: "body y s = Inr s1" "for_each body ys s1 = Inr s'"
    by (auto split: sum.splits)
  have k1: "keeps s s1" using s1(1) by (rule k)
  show ?case
  proof (cases "x = y")
    case True
    then have "w \<in> set (printed s1)" using at s1(1) Cons.prems(3) by blast
    moreover have "keeps s1 s'" using k s1(2) by (rule for_each_keeps)
    ultimately show ?thesis by (auto simp: keeps_def)
  next
    case False
    then have "x \<in> set ys" using Cons.prems(2) by simp
    moreover have "meshes (mdl s1) = ms" using k1 Cons.prems(3) by (simp add: keeps_def)
    ultimately show ?thesis using Cons.IH s1(2) by blast
  qed
qed

lemma process_frame_warns:
  assumes "process_frame a x (f, mi) st = Inr st'" and "mi \<ge> length (meshes (mdl st))"
  shows "Mesh_index_out_of_range mi (anim_name a) \<in> set (printed st')"
  using assms by (auto simp: process_frame_def print_def)

lemma process_animation_warns:
  assumes run: "process_animation (x, a) st = Inr st'"
    and f: "f < length (anim_meshes a)"
    and mi: "anim_meshes a ! f \<ge> length (meshes (mdl st))"
  shows "Mesh_index_out_of_range (anim_meshes a ! f) (anim_name a) \<in> set (printed st')"
proof -
  let ?st1 = "st\<lparr>anim_name_indexer := index_name (anim_name a) (anim_name_indexer st)\<rparr>"
  have r: "for_each (process_frame a x) (enumerate 0 (anim_meshes a)) ?st1 = Inr st'"
    using run by (simp add: process_animation_def Let_def)
  have mem: "(f, anim_meshes a ! f) \<in> set (enumerate 0 (anim_meshes a))"
    using f by (simp add: in_set_enumerate_eq)
  show ?thesis
  proof (rule for_each_prints [OF process_frame_keeps _ r mem])
    show "meshes (mdl ?st1) = meshes (mdl st)" by simp
  next
    fix s s'
    assume "process_frame a x (f, anim_meshes a ! f) s = Inr s'" and "meshes (mdl s) = meshes (mdl st)"
    then show "Mesh_index_out_of_range (anim_meshes a ! f) (anim_name a) \<in> set (printed s')"
      using mi process_frame_warns by simp
  qed
qed

lemma export_to_gltf_warns:
  assumes run: "export_to_gltf m = Inr st" and a: "a < length (animations m)"
    and f: "f < length (anim_meshes (animations m ! a))"
    and mi: "anim_meshes (animations m ! a) ! f \<ge> length (meshes m)"
  shows "Mesh_index_out_of_range (anim_meshes (animations m ! a) ! f)
           (anim_name (animations m ! a)) \<in> set (printed st)"
proof -
  have r: "for_each process_animation (enumerate 0 (animations m)) (initial_state m) = Inr st"
    using run by (simp add: export_to_gltf_def)
  have mem: "(a, animations m ! a) \<in> set (enumerate 0 (animations m))"
    using a by (simp add: in_set_enumerate_eq)
  show ?thesis
  proof (rule for_each_prints [OF process_animation_keeps _ r mem])
    show "meshes (mdl (initial_state m)) = meshes m" by (simp add: initial_state_def)
  next
    fix s s'
    assume "process_animation (a, animations m ! a) s = Inr s'" and "meshes (mdl s) = meshes m"
    then show "Mesh_index_out_of_range (anim_meshes (animations m ! a) ! f)
           (anim_name (animations m ! a)) \<in> set (printed s')"
      using process_animation_warns [OF _ f] mi by simp
  qed
qed

section \<open>What the serializer returns\<close>

lemma export_result:
  obtains st where "export_to_gltf m = Inr st" and "same_but_uv m (mdl st)"
    and "output_of m (emitted m) st" and "messages_of m (model_links m) st"
  using export_to_gltf_Inv [of m] by (auto simp: Inv_def emitted_def)

lemma nth_concat_accessors:
  "k < n \<Longrightarrow> j < 3 \<Longrightarrow>
   concat (map (link_accessors m es) [0..<n]) ! (3 * k + j) = link_accessors m es k ! j"
proof (induction n)
  case 0
  then show ?case by simp
next
  case (Suc n)
  show ?case
  proof (cases "k < n")
    case True
    then have "3 * k + j < 3 * n" using Suc.prems by simp
    then show ?thesis using Suc True
      by (simp add: nth_append length_concat_accessors)
  next
    case False
    then have "k = n" using Suc.prems by simp
    then show ?thesis
      by (simp add: nth_append length_concat_accessors)
  qed
qed

lemma nth_link_mesh:
  "k < length es \<Longrightarrow> map (link_mesh m) (enumerate 0 es) ! k = link_mesh m (k, es ! k)"
  by (simp add: nth_enumerate_eq)

lemma nth_link_node:
  "k < length es \<Longrightarrow> map (link_node m) (enumerate 0 es) ! k = link_node m (k, es ! k)"
  by (simp add: nth_enumerate_eq)

lemma concat_split_at:
  assumes "k < length es"
  shows "concat (map g es) = concat (map g (take k es)) @ g (es ! k) @ concat (map g (drop (Suc k) es))"
proof -
  have "es = take k es @ es ! k # drop (Suc k) es"
    using assms by (rule id_take_nth_drop)
  then have "concat (map g es) = concat (map g (take k es @ es ! k # drop (Suc k) es))"
    by simp
  then show ?thesis by simp
qed

lemma length_pack_vertices: "length (pack_vertices vs) = 3 * length vs"
  by (induction vs) (auto simp: pack_vertices_def)

lemma length_pack_texture_coordinates: "length (pack_texture_coordinates ts) = 2 * length ts"
  by (induction ts) (auto simp: pack_texture_coordinates_def)

lemma length_reconciled: "length (reconciled m l) = length (points_data m ! points l)"
  by (simp add: reconciled_def Let_def)

lemma read_position_items:
  assumes k: "k < length es" and v: "vertex_byte_array st = concat (map (vertex_items m) es)"
  shows "read_items (vertex_byte_array st)
           (len_bytes (concat (map (vertex_items m) (take k es))))
           (3 * length (link_vertices m (occ_link (es ! k))))
         = pack_vertices (link_vertices m (occ_link (es ! k)))"
  unfolding v read_items_def len_bytes_def concat_split_at [OF k, of "vertex_items m"]
  by (simp add: vertex_items_def length_pack_vertices)

lemma read_uv_items:
  assumes k: "k < length es" and v: "vertex_byte_array st = concat (map (vertex_items m) es)"
  shows "read_items (vertex_byte_array st)
           (len_bytes (concat (map (vertex_items m) (take k es)))
              + len_bytes (pack_vertices (link_vertices m (occ_link (es ! k)))))
           (2 * length (points_data m ! points (occ_link (es ! k))))
         = pack_texture_coordinates (reconciled m (occ_link (es ! k)))"
proof -
  have "(4 * length (concat (map (vertex_items m) (take k es)))
        + 4 * length (pack_vertices (link_vertices m (occ_link (es ! k))))) div 4
      = length (concat (map (vertex_items m) (take k es)))
        + length (pack_vertices (link_vertices m (occ_link (es ! k))))"
    by simp
  then show ?thesis
    unfolding v read_items_def len_bytes_def concat_split_at [OF k, of "vertex_items m"]
    by (simp add: vertex_items_def length_pack_texture_coordinates length_reconciled
        del: length_concat)
qed

text \<open>The accessors, mesh and node of the k-th emitted link.\<close>

lemma output_at:
  assumes out: "output_of m es st" and k: "k < length es"
  shows "gltf_meshes st ! k = link_mesh m (k, es ! k)"
    and "nodes st ! k = link_node m (k, es ! k)"
    and "accessors st ! (3 * k) = link_accessors m es k ! 0"
    and "accessors st ! (3 * k + 1) = link_accessors m es k ! 1"
    and "length (gltf_meshes st) = length es"
    and "length (nodes st) = length es"
proof -
  from out have a: "accessors st = concat (map (link_accessors m es) [0..<length es])"
    and g: "gltf_meshes st = map (link_mesh m) (enumerate 0 es)"
    and n: "nodes st = map (link_node m) (enumerate 0 es)"
    by (simp_all add: output_of_def)
  show "gltf_meshes st ! k = link_mesh m (k, es ! k)"
    unfolding g using k by (rule nth_link_mesh)
  show "nodes st ! k = link_node m (k, es ! k)"
    unfolding n using k by (rule nth_link_node)
  show "accessors st ! (3 * k) = link_accessors m es k ! 0"
    unfolding a using nth_concat_accessors [OF k, of 0 m es] by simp
  show "accessors st ! (3 * k + 1) = link_accessors m es k ! 1"
    unfolding a using nth_concat_accessors [OF k, of 1 m es] by simp
  show "length (gltf_meshes st) = length es" by (simp add: g)
  show "length (nodes st) = length es" by (simp add: n)
qed

lemma position_accessor_at:
  assumes out: "output_of m es st" and k: "k < length es"
  shows "position_accessor st k =
     \<lparr>bufferView = 0, byteOffset = len_bytes (concat (map (vertex_items m) (take k es))),
      componentType = FLOAT, acc_count = length (link_vertices m (occ_link (es ! k))),
      acc_type = VEC3, acc_min = Some (axis_min (link_vertices m (occ_link (es ! k)))),
      acc_max = Some (axis_max (link_vertices m (occ_link (es ! k))))\<rparr>"
  using output_at(1,3) [OF out k]
  by (simp add: position_accessor_def link_mesh_def link_accessors_def Let_def)

lemma texcoord_accessor_at:
  assumes out: "output_of m es st" and k: "k < length es"
  shows "texcoord_accessor st k =
     \<lparr>bufferView = 0,
      byteOffset = len_bytes (concat (map (vertex_items m) (take k es)))
        + len_bytes (pack_vertices (link_vertices m (occ_link (es ! k)))),
      componentType = FLOAT, acc_count = length (reconciled m (occ_link (es ! k))),
      acc_type = VEC2, acc_min = None, acc_max = None\<rparr>"
  using output_at(1,4) [OF out k]
  by (simp add: texcoord_accessor_def link_mesh_def link_accessors_def Let_def)

lemma map_snd_enumerate: "map (\<lambda>ko. h (snd ko)) (enumerate n es) = map h es"
  by (induction es arbitrary: n) simp_all

lemma in_frame_links:
  "oc \<in> set (frame_links m a an (f, mi)) \<longleftrightarrow>
     mi < length (meshes m) \<and> (\<exists>i < length (links (meshes m ! mi)).
       oc = \<lparr>occ_anim_idx = a, occ_animation = an, occ_frame_idx = f, occ_link_idx = i,
              occ_link = links (meshes m ! mi) ! i\<rparr>)"
  by (auto simp: frame_links_def in_set_enumerate_eq image_iff Bex_def)

lemma in_animation_links:
  "oc \<in> set (animation_links m (a, an)) \<longleftrightarrow>
     (\<exists>f < length (anim_meshes an). oc \<in> set (frame_links m a an (f, anim_meshes an ! f)))"
  by (auto simp: animation_links_def in_set_enumerate_eq Bex_def)

lemma in_model_links:
  "oc \<in> set (model_links m) \<longleftrightarrow>
     (\<exists>a < length (animations m). oc \<in> set (animation_links m (a, animations m ! a)))"
  by (auto simp: model_links_def in_set_enumerate_eq Bex_def)

lemma in_model_links_iff:
  "oc \<in> set (model_links m) \<longleftrightarrow>
     (\<exists>a f i. a < length (animations m) \<and> f < length (anim_meshes (animations m ! a)) \<and>
        anim_meshes (animations m ! a) ! f < length (meshes m) \<and>
        i < length (links (meshes m ! (anim_meshes (animations m ! a) ! f))) \<and>
        oc = \<lparr>occ_anim_idx = a, occ_animation = animations m ! a, occ_frame_idx = f,
               occ_link_idx = i,
               occ_link = links (meshes m ! (anim_meshes (animations m ! a) ! f)) ! i\<rparr>)"
  unfolding in_model_links in_animation_links in_frame_links by blast

lemma frame_groups_iff:
  assumes a: "a < length (animations m)"
  shows "f \<in> frame_groups m a \<longleftrightarrow>
     f < length (anim_meshes (animations m ! a)) \<and>
     anim_meshes (animations m ! a) ! f < length (meshes m) \<and>
     list_ex (usable m) (links (meshes m ! (anim_meshes (animations m ! a) ! f)))"
    (is "?L \<longleftrightarrow> ?R")
proof
  assume ?L
  then obtain oc where oc: "oc \<in> set (model_links m)" "usable m (occ_link oc)"
      "occ_anim_idx oc = a" "occ_frame_idx oc = f"
    by (auto simp: frame_groups_def emitted_def emitted_of_def)
  from oc(1) obtain a' f' i where
      "f' < length (anim_meshes (animations m ! a'))"
      "anim_meshes (animations m ! a') ! f' < length (meshes m)"
      "i < length (links (meshes m ! (anim_meshes (animations m ! a') ! f')))"
      "oc = \<lparr>occ_anim_idx = a', occ_animation = animations m ! a', occ_frame_idx = f',
               occ_link_idx = i,
               occ_link = links (meshes m ! (anim_meshes (animations m ! a') ! f')) ! i\<rparr>"
    unfolding in_model_links_iff by blast
  with oc(2,3,4) show ?R
    by (auto simp: list_ex_iff)
next
  assume r: ?R
  then obtain l where l: "l \<in> set (links (meshes m ! (anim_meshes (animations m ! a) ! f)))"
      "usable m l"
    by (auto simp: list_ex_iff)
  then obtain i where i: "i < length (links (meshes m ! (anim_meshes (animations m ! a) ! f)))"
      "links (meshes m ! (anim_meshes (animations m ! a) ! f)) ! i = l"
    by (auto simp: in_set_conv_nth)
  let ?oc = "\<lparr>occ_anim_idx = a, occ_animation = animations m ! a, occ_frame_idx = f,
               occ_link_idx = i,
               occ_link = links (meshes m ! (anim_meshes (animations m ! a) ! f)) ! i\<rparr>"
  have "?oc \<in> set (model_links m)"
    unfolding in_model_links_iff using a r i(1) by blast
  moreover have "usable m (occ_link ?oc)" using l(2) i(2) by simp
  ultimately have "?oc \<in> set (filter (\<lambda>oc. occ_anim_idx oc = a) (emitted m))"
    by (simp add: emitted_def emitted_of_def)
  then have "occ_frame_idx ?oc \<in> frame_groups m a"
    unfolding frame_groups_def set_map by (rule imageI)
  then show ?L by simp
qed

section \<open>The sample model evaluated\<close>

lemmas spec_defs = emitted_def emitted_of_def model_links_def animation_links_def frame_links_def
     usable_def enumerate_eq_zip

lemma emitted_sample: "emitted sample =
  [\<lparr>occ_anim_idx = 0, occ_animation = \<lparr>anim_name = ''walk'', anim_meshes = [0, 7]\<rparr>,
    occ_frame_idx = 0, occ_link_idx = 0,
    occ_link = \<lparr>material = 0, points = 0, triangles = 0, texture_coordinates = 0\<rparr>\<rparr>,
   \<lparr>occ_anim_idx = 0, occ_animation = \<lparr>anim_name = ''walk'', anim_meshes = [0, 7]\<rparr>,
    occ_frame_idx = 0, occ_link_idx = 1,
    occ_link = \<lparr>material = 1, points = 0, triangles = 0, texture_coordinates = 0\<rparr>\<rparr>,
   \<lparr>occ_anim_idx = 1, occ_animation = \<lparr>anim_name = ''walk'', anim_meshes = [0]\<rparr>,
    occ_frame_idx = 0, occ_link_idx = 0,
    occ_link = \<lparr>material = 0, points = 0, triangles = 0, texture_coordinates = 0\<rparr>\<rparr>,
   \<lparr>occ_anim_idx = 1, occ_animation = \<lparr>anim_name = ''walk'', anim_meshes = [0]\<rparr>,
    occ_frame_idx = 0, occ_link_idx = 1,
    occ_link = \<lparr>material = 1, points = 0, triangles = 0, texture_coordinates = 0\<rparr>\<rparr>]"
  by (simp add: spec_defs sample_def)

lemma nodes_sample: "map (link_node sample) (enumerate 0 (emitted sample)) =
  [\<lparr>node_mesh = 0, node_name = ''walk_00_frame00_skin''\<rparr>,
   \<lparr>node_mesh = 1, node_name = ''walk_00_frame00_skin''\<rparr>,
   \<lparr>node_mesh = 2, node_name = ''walk_01_frame00_skin''\<rparr>,
   \<lparr>node_mesh = 3, node_name = ''walk_01_frame00_skin''\<rparr>]"
  by code_simp

lemma skip_messages_sample: "map (skip_message sample) (skipped sample) =
  [Error_processing_mesh ''walk'' 0 2 IndexError, Empty_points_data ''walk'' 0 3,
   Error_processing_mesh ''walk'' 0 2 IndexError, Empty_points_data ''walk'' 0 3]"
  by code_simp

text \<open>The transformed points and the packed values that occur in the concrete models.\<close>

lemma transform_point_values:
  "transform_point (Finite 0, Finite 0, Finite 0) = (Finite (- 50), Finite (- 50), Finite (- 50))"
  "transform_point (Finite 1, Finite 0, Finite 0) = (Finite 50, Finite (- 50), Finite (- 50))"
  "transform_point (Finite 0, Finite 1, Finite 0) = (Finite (- 50), Finite 50, Finite (- 50))"
  "transform_point (Finite 1, Finite 1, Finite 0) = (Finite 50, Finite 50, Finite (- 50))"
  "transform_point (Finite 0, Finite 0, Finite 1) = (Finite (- 50), Finite (- 50), Finite 50)"
  "transform_point (Finite 1, Finite 1, Finite 1) = (Finite 50, Finite 50, Finite 50)"
  "transform_point (Finite (1 / 2), Finite (1 / 2), Finite (1 / 2)) = (Finite 0, Finite 0, Finite 0)"
  "transform_point (Finite (13421773 / 134217728), Finite (13421773 / 134217728),
       Finite (13421773 / 134217728))
     = (Finite (- (1342177275 / 33554432)), Finite (- (1342177275 / 33554432)),
        Finite (- (1342177275 / 33554432)))"
  by (simp_all add: transform_point_def float_eval)

lemma struct_pack_f_values:
  "struct_pack_f (Finite 0) = Pack_f (Finite 0)"
  "struct_pack_f (Finite 1) = Pack_f (Finite 1)"
  "struct_pack_f (Finite (1 / 4)) = Pack_f (Finite (1 / 4))"
  "struct_pack_f (Finite (1 / 2)) = Pack_f (Finite (1 / 2))"
  "struct_pack_f (Finite 50) = Pack_f (Finite 50)"
  "struct_pack_f (Finite (- 50)) = Pack_f (Finite (- 50))"
  "struct_pack_f (Finite (- (1342177275 / 33554432))) = Pack_f (Finite (- 40))"
  by (simp_all add: float_eval)

lemmas run_eval = export_to_gltf_def initial_state_def duplicate_names_def anim_name_counts_def
  process_animation_def process_frame_def process_link_def resolve_link_def emit_link_def
  getitem_def print_def len_bytes_def bounds_def material_name_for_def
  make_node_name_def clean_up_def strip_def replace_quote_def format_02d_def str_nat.simps
  digit_def isspace_def enumerate_eq_zip pack_vertices_def pack_texture_coordinates_def Let_def
  py_lt_def py_gt_def to_real_def transform_point_values struct_pack_f_values skin_def

text \<open>The runs of the serializer on the concrete models, evaluated step by step.\<close>

lemma scenario_run:
  "export_to_gltf scenario =
    Inr \<lparr>mdl = scenario, vertex_byte_array = [Pack_f (Finite (- 50)), Pack_f (Finite (-
    50)), Pack_f (Finite (- 50)), Pack_f (Finite 50), Pack_f (Finite (- 50)), Pack_f (Finite
    (- 50)), Pack_f (Finite (- 50)), Pack_f (Finite 50), Pack_f (Finite (- 50)), Pack_f
    (Finite 0), Pack_f (Finite 0), Pack_f (Finite 1), Pack_f (Finite 0), Pack_f (Finite 0),
    Pack_f (Finite 1)], index_byte_array = [Pack_I 0, Pack_I 1, Pack_I 2], accessors =
    [\<lparr>bufferView = 0, byteOffset = 0, componentType = FLOAT, acc_count = 3, acc_type =
    VEC3, acc_min = Some [Finite (- 50), Finite (- 50), Finite (- 50)], acc_max = Some [Finite
    50, Finite 50, Finite (- 50)]\<rparr>, \<lparr>bufferView = 0, byteOffset = 36,
    componentType = FLOAT, acc_count = 3, acc_type = VEC2, acc_min = None, acc_max =
    None\<rparr>, \<lparr>bufferView = 1, byteOffset = 0, componentType = UNSIGNED_INT,
    acc_count = 3, acc_type = SCALAR, acc_min = None, acc_max = None\<rparr>], gltf_meshes =
    [\<lparr>primitives = [\<lparr>POSITION = 0, TEXCOORD_0 = 1, indices = 2, prim_material =
    0\<rparr>]\<rparr>], nodes = [\<lparr>node_mesh = 0, node_name =
    ''idle_00_frame00_skin''\<rparr>], anim_name_indexer = [(''idle'', 0)], printed =
    []\<rparr>"
  by (simp add: run_eval scenario_def)


lemma no_materials_run:
  "export_to_gltf no_materials =
    Inr \<lparr>mdl = no_materials, vertex_byte_array = [Pack_f (Finite (- 50)), Pack_f
    (Finite (- 50)), Pack_f (Finite (- 50)), Pack_f (Finite 50), Pack_f (Finite (- 50)),
    Pack_f (Finite (- 50)), Pack_f (Finite (- 50)), Pack_f (Finite 50), Pack_f (Finite (-
    50)), Pack_f (Finite 0), Pack_f (Finite 0), Pack_f (Finite 1), Pack_f (Finite 0), Pack_f
    (Finite 0), Pack_f (Finite 1)], index_byte_array = [Pack_I 0, Pack_I 1, Pack_I 2],
    accessors = [\<lparr>bufferView = 0, byteOffset = 0, componentType = FLOAT, acc_count = 3,
    acc_type = VEC3, acc_min = Some [Finite (- 50), Finite (- 50), Finite (- 50)], acc_max =
    Some [Finite 50, Finite 50, Finite (- 50)]\<rparr>, \<lparr>bufferView = 0, byteOffset =
    36, componentType = FLOAT, acc_count = 3, acc_type = VEC2, acc_min = None, acc_max =
    None\<rparr>, \<lparr>bufferView = 1, byteOffset = 0, componentType = UNSIGNED_INT,
    acc_count = 3, acc_type = SCALAR, acc_min = None, acc_max = None\<rparr>], gltf_meshes =
    [\<lparr>primitives = [\<lparr>POSITION = 0, TEXCOORD_0 = 1, indices = 2, prim_material =
    0\<rparr>]\<rparr>], nodes = [\<lparr>node_mesh = 0, node_name =
    ''idle_00_frame00_''\<rparr>], anim_name_indexer = [(''idle'', 0)], printed =
    [Invalid_material_index 0 ''idle'' 0 0]\<rparr>"
  by (simp add: run_eval no_materials_def scenario_def)

lemma three_animations_run:
  "export_to_gltf three_animations =
    Inr \<lparr>mdl = three_animations, vertex_byte_array = [Pack_f (Finite (- 50)), Pack_f
    (Finite (- 50)), Pack_f (Finite (- 50)), Pack_f (Finite 50), Pack_f (Finite (- 50)),
    Pack_f (Finite (- 50)), Pack_f (Finite (- 50)), Pack_f (Finite 50), Pack_f (Finite (-
    50)), Pack_f (Finite 0), Pack_f (Finite 0), Pack_f (Finite 1), Pack_f (Finite 0), Pack_f
    (Finite 0), Pack_f (Finite 1), Pack_f (Finite (- 50)), Pack_f (Finite (- 50)), Pack_f
    (Finite (- 50)), Pack_f (Finite 50), Pack_f (Finite (- 50)), Pack_f (Finite (- 50)),
    Pack_f (Finite (- 50)), Pack_f (Finite 50), Pack_f (Finite (- 50)), Pack_f (Finite 0),
    Pack_f (Finite 0), Pack_f (Finite 1), Pack_f (Finite 0), Pack_f (Finite 0), Pack_f (Finite
    1), Pack_f (Finite (- 50)), Pack_f (Finite (- 50)), Pack_f (Finite (- 50)), Pack_f (Finite
    50), Pack_f (Finite (- 50)), Pack_f (Finite (- 50)), Pack_f (Finite (- 50)), Pack_f
    (Finite 50), Pack_f (Finite (- 50)), Pack_f (Finite 0), Pack_f (Finite 0), Pack_f (Finite
    1), Pack_f (Finite 0), Pack_f (Finite 0), Pack_f (Finite 1)], index_byte_array = [Pack_I
    0, Pack_I 1, Pack_I 2, Pack_I 0, Pack_I 1, Pack_I 2, Pack_I 0, Pack_I 1, Pack_I 2],
    accessors = [\<lparr>bufferView = 0, byteOffset = 0, componentType = FLOAT, acc_count = 3,
    acc_type = VEC3, acc_min = Some [Finite (- 50), Finite (- 50), Finite (- 50)], acc_max =
    Some [Finite 50, Finite 50, Finite (- 50)]\<rparr>, \<lparr>bufferView = 0, byteOffset =
    36, componentType = FLOAT, acc_count = 3, acc_type = VEC2, acc_min = None, acc_max =
    None\<rparr>, \<lparr>bufferView = 1, byteOffset = 0, componentType = UNSIGNED_INT,
    acc_count = 3, acc_type = SCALAR, acc_min = None, acc_max = None\<rparr>,
    \<lparr>bufferView = 0, byteOffset = 60, componentType = FLOAT, acc_count = 3, acc_type =
    VEC3, acc_min = Some [Finite (- 50), Finite (- 50), Finite (- 50)], acc_max = Some [Finite
    50, Finite 50, Finite (- 50)]\<rparr>, \<lparr>bufferView = 0, byteOffset = 96,
    componentType = FLOAT, acc_count = 3, acc_type = VEC2, acc_min = None, acc_max =
    None\<rparr>, \<lparr>bufferView = 1, byteOffset = 12, componentType = UNSIGNED_INT,
    acc_count = 3, acc_type = SCALAR, acc_min = None, acc_max = None\<rparr>,
    \<lparr>bufferView = 0, byteOffset = 120, componentType = FLOAT, acc_count = 3, acc_type =
    VEC3, acc_min = Some [Finite (- 50), Finite (- 50), Finite (- 50)], acc_max = Some [Finite
    50, Finite 50, Finite (- 50)]\<rparr>, \<lparr>bufferView = 0, byteOffset = 156,
    componentType = FLOAT, acc_count = 3, acc_type = VEC2, acc_min = None, acc_max =
    None\<rparr>, \<lparr>bufferView = 1, byteOffset = 24, componentType = UNSIGNED_INT,
    acc_count = 3, acc_type = SCALAR, acc_min = None, acc_max = None\<rparr>], gltf_meshes =
    [\<lparr>primitives = [\<lparr>POSITION = 0, TEXCOORD_0 = 1, indices = 2, prim_material =
    0\<rparr>]\<rparr>, \<lparr>primitives = [\<lparr>POSITION = 3, TEXCOORD_0 = 4, indices =
    5, prim_material = 0\<rparr>]\<rparr>, \<lparr>primitives = [\<lparr>POSITION = 6,
    TEXCOORD_0 = 7, indices = 8, prim_material = 0\<rparr>]\<rparr>], nodes =
    [\<lparr>node_mesh = 0, node_name = ''idle_00_frame00_skin''\<rparr>, \<lparr>node_mesh =
    1, node_name = ''walk_01_frame00_skin''\<rparr>, \<lparr>node_mesh = 2, node_name =
    ''walk_02_frame00_skin''\<rparr>], anim_name_indexer = [(''idle'', 0), (''walk'', 1)],
    printed = [Duplicate_animation_names [''walk'']]\<rparr>"
  by (simp add: run_eval three_animations_def scenario_def)

lemma sample_run:
  "export_to_gltf sample =
    Inr \<lparr>mdl = sample\<lparr>texture_coordinates_data := [[(Finite (1 / 4), Finite (1 /
    2)), (Finite 1, Finite 0), (Finite 0, Finite 1), (Finite 0, Finite 0), (Finite 0, Finite
    0)]]\<rparr>, vertex_byte_array = [Pack_f (Finite (- 50)), Pack_f (Finite (- 50)), Pack_f
    (Finite (- 50)), Pack_f (Finite 50), Pack_f (Finite (- 50)), Pack_f (Finite (- 50)),
    Pack_f (Finite (- 50)), Pack_f (Finite 50), Pack_f (Finite (- 50)), Pack_f (Finite 50),
    Pack_f (Finite 50), Pack_f (Finite (- 50)), Pack_f (Finite (- 50)), Pack_f (Finite (-
    50)), Pack_f (Finite 50), Pack_f (Finite (1 / 4)), Pack_f (Finite (1 / 2)), Pack_f (Finite
    1), Pack_f (Finite 0), Pack_f (Finite 0), Pack_f (Finite 1), Pack_f (Finite 0), Pack_f
    (Finite 0), Pack_f (Finite 0), Pack_f (Finite 0), Pack_f (Finite (- 50)), Pack_f (Finite
    (- 50)), Pack_f (Finite (- 50)), Pack_f (Finite 50), Pack_f (Finite (- 50)), Pack_f
    (Finite (- 50)), Pack_f (Finite (- 50)), Pack_f (Finite 50), Pack_f (Finite (- 50)),
    Pack_f (Finite 50), Pack_f (Finite 50), Pack_f (Finite (- 50)), Pack_f (Finite (- 50)),
    Pack_f (Finite (- 50)), Pack_f (Finite 50), Pack_f (Finite (1 / 4)), Pack_f (Finite (1 /
    2)), Pack_f (Finite 1), Pack_f (Finite 0), Pack_f (Finite 0), Pack_f (Finite 1), Pack_f
    (Finite 0), Pack_f (Finite 0), Pack_f (Finite 0), Pack_f (Finite 0), Pack_f (Finite (-
    50)), Pack_f (Finite (- 50)), Pack_f (Finite (- 50)), Pack_f (Finite 50), Pack_f (Finite
    (- 50)), Pack_f (Finite (- 50)), Pack_f (Finite (- 50)), Pack_f (Finite 50), Pack_f
    (Finite (- 50)), Pack_f (Finite 50), Pack_f (Finite 50), Pack_f (Finite (- 50)), Pack_f
    (Finite (- 50)), Pack_f (Finite (- 50)), Pack_f (Finite 50), Pack_f (Finite (1 / 4)),
    Pack_f (Finite (1 / 2)), Pack_f (Finite 1), Pack_f (Finite 0), Pack_f (Finite 0), Pack_f
    (Finite 1), Pack_f (Finite 0), Pack_f (Finite 0), Pack_f (Finite 0), Pack_f (Finite 0),
    Pack_f (Finite (- 50)), Pack_f (Finite (- 50)), Pack_f (Finite (- 50)), Pack_f (Finite
    50), Pack_f (Finite (- 50)), Pack_f (Finite (- 50)), Pack_f (Finite (- 50)), Pack_f
    (Finite 50), Pack_f (Finite (- 50)), Pack_f (Finite 50), Pack_f (Finite 50), Pack_f
    (Finite (- 50)), Pack_f (Finite (- 50)), Pack_f (Finite (- 50)), Pack_f (Finite 50),
    Pack_f (Finite (1 / 4)), Pack_f (Finite (1 / 2)), Pack_f (Finite 1), Pack_f (Finite 0),
    Pack_f (Finite 0), Pack_f (Finite 1), Pack_f (Finite 0), Pack_f (Finite 0), Pack_f (Finite
    0), Pack_f (Finite 0)], index_byte_array = [Pack_I 0, Pack_I 1, Pack_I 2, Pack_I 0, Pack_I
    1, Pack_I 2, Pack_I 0, Pack_I 1, Pack_I 2, Pack_I 0, Pack_I 1, Pack_I 2], accessors =
    [\<lparr>bufferView = 0, byteOffset = 0, componentType = FLOAT, acc_count = 5, acc_type =
    VEC3, acc_min = Some [Finite (- 50), Finite (- 50), Finite (- 50)], acc_max = Some [Finite
    50, Finite 50, Finite 50]\<rparr>, \<lparr>bufferView = 0, byteOffset = 60, componentType
    = FLOAT, acc_count = 5, acc_type = VEC2, acc_min = None, acc_max = None\<rparr>,
    \<lparr>bufferView = 1, byteOffset = 0, componentType = UNSIGNED_INT, acc_count = 3,
    acc_type = SCALAR, acc_min = None, acc_max = None\<rparr>, \<lparr>bufferView = 0,
    byteOffset = 100, componentType = FLOAT, acc_count = 5, acc_type = VEC3, acc_min = Some
    [Finite (- 50), Finite (- 50), Finite (- 50)], acc_max = Some [Finite 50, Finite 50,
    Finite 50]\<rparr>, \<lparr>bufferView = 0, byteOffset = 160, componentType = FLOAT,
    acc_count = 5, acc_type = VEC2, acc_min = None, acc_max = None\<rparr>, \<lparr>bufferView
    = 1, byteOffset = 12, componentType = UNSIGNED_INT, acc_count = 3, acc_type = SCALAR,
    acc_min = None, acc_max = None\<rparr>, \<lparr>bufferView = 0, byteOffset = 200,
    componentType = FLOAT, acc_count = 5, acc_type = VEC3, acc_min = Some [Finite (- 50),
    Finite (- 50), Finite (- 50)], acc_max = Some [Finite 50, Finite 50, Finite 50]\<rparr>,
    \<lparr>bufferView = 0, byteOffset = 260, componentType = FLOAT, acc_count = 5, acc_type =
    VEC2, acc_min = None, acc_max = None\<rparr>, \<lparr>bufferView = 1, byteOffset = 24,
    componentType = UNSIGNED_INT, acc_count = 3, acc_type = SCALAR, acc_min = None, acc_max =
    None\<rparr>, \<lparr>bufferView = 0, byteOffset = 300, componentType = FLOAT, acc_count =
    5, acc_type = VEC3, acc_min = Some [Finite (- 50), Finite (- 50), Finite (- 50)], acc_max
    = Some [Finite 50, Finite 50, Finite 50]\<rparr>, \<lparr>bufferView = 0, byteOffset =
    360, componentType = FLOAT, acc_count = 5, acc_type = VEC2, acc_min = None, acc_max =
    None\<rparr>, \<lparr>bufferView = 1, byteOffset = 36, componentType = UNSIGNED_INT,
    acc_count = 3, acc_type = SCALAR, acc_min = None, acc_max = None\<rparr>], gltf_meshes =
    [\<lparr>primitives = [\<lparr>POSITION = 0, TEXCOORD_0 = 1, indices = 2, prim_material =
    0\<rparr>]\<rparr>, \<lparr>primitives = [\<lparr>POSITION = 3, TEXCOORD_0 = 4, indices =
    5, prim_material = 0\<rparr>]\<rparr>, \<lparr>primitives = [\<lparr>POSITION = 6,
    TEXCOORD_0 = 7, indices = 8, prim_material = 0\<rparr>]\<rparr>, \<lparr>primitives =
    [\<lparr>POSITION = 9, TEXCOORD_0 = 10, indices = 11, prim_material = 0\<rparr>]\<rparr>],
    nodes = [\<lparr>node_mesh = 0, node_name = ''walk_00_frame00_skin''\<rparr>,
    \<lparr>node_mesh = 1, node_name = ''walk_00_frame00_skin''\<rparr>, \<lparr>node_mesh =
    2, node_name = ''walk_01_frame00_skin''\<rparr>, \<lparr>node_mesh = 3, node_name =
    ''walk_01_frame00_skin''\<rparr>], anim_name_indexer = [(''walk'', 1)], printed =
    [Duplicate_animation_names [''walk''], Texture_coordinates_count_mismatch 3 5 ''walk'' 0
    0, Invalid_material_index 1 ''walk'' 0 1, Error_processing_mesh ''walk'' 0 2 IndexError,
    Empty_points_data ''walk'' 0 3, Mesh_index_out_of_range 7 ''walk'', Invalid_material_index
    1 ''walk'' 0 1, Error_processing_mesh ''walk'' 0 2 IndexError, Empty_points_data ''walk''
    0 3]\<rparr>"
  by (simp add: run_eval sample_def)

text \<open>
  The pools after a run: the points and triangles pools are those of the model passed in,
  and every entry of the texture coordinate pool is the original entry followed by
  \<open>(0.0, 0.0)\<close> pairs.
\<close>

lemma pools_after_export:
  "\<exists>st. export_to_gltf m = Inr st \<and> points_data (mdl st) = points_data m \<and>
     triangle_data (mdl st) = triangle_data m \<and> same_but_uv m (mdl st)"
proof -
  obtain st where "export_to_gltf m = Inr st" and "same_but_uv m (mdl st)"
    by (rule export_result)
  then show ?thesis by (auto simp: same_but_uv_def)
qed

text \<open>
  The name of every node, with the number that the source formats after the animation
  name: the position of the animation in \<^verbatim>\<open>model.animations\<close>.
\<close>

lemma node_names_by_position:
  "\<exists>st. export_to_gltf m = Inr st \<and>
     map node_name (nodes st) =
       map (\<lambda>oc. clean_up (anim_name (occ_animation oc) @ ''_'' @ format_02d (occ_anim_idx oc)
                   @ ''_frame'' @ format_02d (occ_frame_idx oc) @ ''_''
                   @ material_name_for m (material_index_for m (occ_link oc))))
         (emitted m)"
proof -
  let ?F = "\<lambda>oc. clean_up (anim_name (occ_animation oc) @ ''_'' @ format_02d (occ_anim_idx oc)
                   @ ''_frame'' @ format_02d (occ_frame_idx oc) @ ''_''
                   @ material_name_for m (material_index_for m (occ_link oc)))"
  obtain st where e: "export_to_gltf m = Inr st" and out: "output_of m (emitted m) st"
    by (rule export_result)
  have n: "nodes st = map (link_node m) (enumerate 0 (emitted m))"
    using out by (simp add: output_of_def)
  have "map node_name (nodes st) = map (\<lambda>ko. ?F (snd ko)) (enumerate 0 (emitted m))"
    unfolding n by (simp add: link_node_def case_prod_unfold make_node_name_def)
  also have "\<dots> = map ?F (emitted m)"
    by (rule map_snd_enumerate [of ?F 0 "emitted m"])
  finally show ?thesis using e by blast
qed

section \<open>The claims\<close>

subsection \<open>C1: the geometry pools after serialization\<close>

text \<open>
  Claim C1 says that serialization leaves every pool entry as it was. The run on the
  sample model, whose first link has five points and a texture coordinate entry of three
  pairs, ends with a texture coordinate pool whose entry has five pairs: the
  \<^verbatim>\<open>extend\<close> call padded the pool's own list. The points and triangles pools are never
  written (lemma \<open>pools_after_export\<close>).
\<close>

theorem uv_pool_extended_in_place:
  "\<not> isl (export_to_gltf sample) \<and>
   texture_coordinates_data sample =
     [[(Finite 0.25, Finite 0.5), (Finite 1, Finite 0), (Finite 0, Finite 1)]] \<and>
   texture_coordinates_data (mdl (projr (export_to_gltf sample))) =
     [[(Finite 0.25, Finite 0.5), (Finite 1, Finite 0), (Finite 0, Finite 1),
       (Finite 0, Finite 0), (Finite 0, Finite 0)]]"
  by (simp add: sample_run) (simp add: sample_def)

subsection \<open>C2: node names\<close>

text \<open>
  Claim C2, as amended: the name of every generated node is the cleaned-up string
  \<^verbatim>\<open>{animation}_{n:02d}_frame{frame:02d}_{material_name}\<close>, where the frame number is
  padded to two digits and \<open>n\<close> is a number fixed per animation of the list (the same
  for all nodes of one animation); nodes are listed in the order of the emitted link
  occurrences.
\<close>

theorem node_name_format:
  "\<exists>st c. export_to_gltf m = Inr st \<and>
     map node_name (nodes st) =
       map (\<lambda>oc. clean_up (anim_name (occ_animation oc) @ ''_'' @ format_02d (c (occ_anim_idx oc))
                   @ ''_frame'' @ format_02d (occ_frame_idx oc) @ ''_''
                   @ material_name_for m (material_index_for m (occ_link oc))))
         (emitted m)"
proof -
  obtain st where "export_to_gltf m = Inr st" and "map node_name (nodes st) =
       map (\<lambda>oc. clean_up (anim_name (occ_animation oc) @ ''_''
                   @ format_02d ((\<lambda>a. a) (occ_anim_idx oc))
                   @ ''_frame'' @ format_02d (occ_frame_idx oc) @ ''_''
                   @ material_name_for m (material_index_for m (occ_link oc))))
         (emitted m)"
    using node_names_by_position [of m] by auto
  then show ?thesis by (intro exI conjI)
qed

text \<open>
  The theorem used on the sample model: four nodes are named.
\<close>

theorem node_name_format_witness:
  "\<exists>st. export_to_gltf sample = Inr st \<and> length (nodes st) = 4"
proof -
  from node_name_format [of sample] obtain st c where e: "export_to_gltf sample = Inr st"
    and n: "map node_name (nodes st) =
       map (\<lambda>oc. clean_up (anim_name (occ_animation oc) @ ''_'' @ format_02d (c (occ_anim_idx oc))
                   @ ''_frame'' @ format_02d (occ_frame_idx oc) @ ''_''
                   @ material_name_for sample (material_index_for sample (occ_link oc))))
         (emitted sample)"
    by blast
  from n have "length (map node_name (nodes st)) = length (emitted sample)"
    by (simp only: length_map)
  then have "length (nodes st) = 4" by (simp add: emitted_sample)
  with e show ?thesis by blast
qed

text \<open>
  Claim C2 as stated fails: with the animations \<open>idle\<close>, \<open>walk\<close>, \<open>walk\<close> the two
  animations named \<open>walk\<close> give the prefixes \<open>walk_01\<close> and \<open>walk_02\<close>, and the frame
  number has two digits.
\<close>

theorem repeated_name_counterexample:
  "\<not> isl (export_to_gltf three_animations) \<and>
   map node_name (nodes (projr (export_to_gltf three_animations))) =
     [''idle_00_frame00_skin'', ''walk_01_frame00_skin'', ''walk_02_frame00_skin'']"
  by (simp add: three_animations_run)

subsection \<open>C3: the concrete scenario\<close>

text \<open>
  Claim C3, as amended: the scenario serializes to exactly one node, named
  \<open>idle_00_frame00_skin\<close>, whose position accessor has count 3, minimum
  \<open>(-50, -50, -50)\<close> and maximum \<open>(50, 50, -50)\<close>.
\<close>

theorem scenario_serialized:
  "case export_to_gltf scenario of Inl e \<Rightarrow> False
   | Inr st \<Rightarrow> nodes st = [\<lparr>node_mesh = 0, node_name = ''idle_00_frame00_skin''\<rparr>] \<and>
       acc_count (position_accessor st 0) = 3 \<and>
       acc_min (position_accessor st 0) = Some [Finite (- 50), Finite (- 50), Finite (- 50)] \<and>
       acc_max (position_accessor st 0) = Some [Finite 50, Finite 50, Finite (- 50)]"
  by (simp add: scenario_run position_accessor_def)

text \<open>
  Claim C3 as stated fails: the node is not named \<open>idle_00_frame000_skin\<close> and the
  maximum is not \<open>(50, -50, 50)\<close>.
\<close>

theorem scenario_counterexample:
  "\<not> isl (export_to_gltf scenario) \<and>
   map node_name (nodes (projr (export_to_gltf scenario))) \<noteq> [''idle_00_frame000_skin''] \<and>
   acc_max (position_accessor (projr (export_to_gltf scenario)) 0)
     \<noteq> Some [Finite 50, Finite (- 50), Finite 50]"
  by (simp add: scenario_run position_accessor_def)

subsection \<open>C4: reconciling texture coordinates with vertices\<close>

text \<open>
  Claim C4: every link with in-range pool indices and non-empty points and triangles is
  emitted whatever the length of its texture coordinate entry, and its texture coordinate
  accessor has as many entries as the link has points: the items it covers in the vertex
  byte array are the original pool entry of the model, padded at the end with \<open>(0.0, 0.0)\<close>
  or truncated to that number.
\<close>

theorem uv_reconciled:
  assumes "k < length (emitted m)"
  shows "\<exists>st. export_to_gltf m = Inr st \<and>
    (let l = occ_link (emitted m ! k);
         n = length (points_data m ! points l);
         uv = texture_coordinates_data m ! texture_coordinates l;
         a = texcoord_accessor st k
     in acc_count (position_accessor st k) = n \<and> acc_count a = n \<and>
        read_items (vertex_byte_array st) (byteOffset a) (2 * acc_count a)
          = pack_texture_coordinates (take n (uv @ replicate (n - length uv) (Finite 0, Finite 0))))"
proof -
  obtain st where e: "export_to_gltf m = Inr st" and out: "output_of m (emitted m) st"
    by (rule export_result)
  have v: "vertex_byte_array st = concat (map (vertex_items m) (emitted m))"
    using out by (simp add: output_of_def)
  show ?thesis
    using e read_uv_items [OF assms v]
    by (simp add: position_accessor_at [OF out assms] texcoord_accessor_at [OF out assms]
        Let_def length_reconciled link_vertices_def)
      (simp add: reconciled_def Let_def)
qed

text \<open>
  The theorem used on the sample model: five points and three texture coordinates give
  five entries, the three originals and two \<open>(0.0, 0.0)\<close>.
\<close>

theorem uv_reconciled_witness:
  "\<exists>st. export_to_gltf sample = Inr st \<and> acc_count (position_accessor st 0) = 5 \<and>
     acc_count (texcoord_accessor st 0) = 5 \<and>
     read_items (vertex_byte_array st) (byteOffset (texcoord_accessor st 0)) 10 =
       [Pack_f (Finite 0.25), Pack_f (Finite 0.5), Pack_f (Finite 1), Pack_f (Finite 0),
        Pack_f (Finite 0), Pack_f (Finite 1), Pack_f (Finite 0), Pack_f (Finite 0),
        Pack_f (Finite 0), Pack_f (Finite 0)]"
  using uv_reconciled [of 0 sample, unfolded emitted_sample]
  by (auto simp: Let_def sample_def pack_texture_coordinates_def struct_pack_f_values)

subsection \<open>C5: frames that generate nodes\<close>

text \<open>
  Claim C5, as amended: for every animation, the frame indices for which at least one node
  is generated are exactly the frames whose mesh index is in range and whose mesh has at
  least one link with in-range pool indices and non-empty points and triangles; their
  number is at most \<^verbatim>\<open>len(animation.meshes)\<close>; and for every frame whose mesh index is
  out of range the warning naming that index and the animation is printed. The nodes are
  those of the emitted link occurrences, in order: node \<open>k\<close> is generated by the
  \<open>k\<close>-th of them.
\<close>

theorem frame_group_count:
  assumes "a < length (animations m)"
  shows "\<exists>st. export_to_gltf m = Inr st \<and>
     nodes st = map (link_node m) (enumerate 0 (emitted m)) \<and>
     frame_groups m a =
       set (filter (\<lambda>f. anim_meshes (animations m ! a) ! f < length (meshes m) \<and>
              list_ex (usable m) (links (meshes m ! (anim_meshes (animations m ! a) ! f))))
            [0..<length (anim_meshes (animations m ! a))]) \<and>
     card (frame_groups m a) \<le> length (anim_meshes (animations m ! a)) \<and>
     set (map (\<lambda>mi. Mesh_index_out_of_range mi (anim_name (animations m ! a)))
            (filter (\<lambda>mi. mi \<ge> length (meshes m)) (anim_meshes (animations m ! a))))
       \<subseteq> set (printed st)"
proof -
  obtain st where e: "export_to_gltf m = Inr st" and out: "output_of m (emitted m) st"
    by (rule export_result)
  have fg: "frame_groups m a =
       set (filter (\<lambda>f. anim_meshes (animations m ! a) ! f < length (meshes m) \<and>
              list_ex (usable m) (links (meshes m ! (anim_meshes (animations m ! a) ! f))))
            [0..<length (anim_meshes (animations m ! a))])"
    using frame_groups_iff [OF assms] by auto
  have "frame_groups m a \<subseteq> {..<length (anim_meshes (animations m ! a))}"
    using frame_groups_iff [OF assms] by auto
  then have c: "card (frame_groups m a) \<le> card {..<length (anim_meshes (animations m ! a))}"
    by (intro card_mono) simp_all
  have w: "Mesh_index_out_of_range mi (anim_name (animations m ! a)) \<in> set (printed st)"
    if mi: "mi \<in> set (anim_meshes (animations m ! a))" "mi \<ge> length (meshes m)" for mi
  proof -
    from mi(1) obtain f where "f < length (anim_meshes (animations m ! a))"
        "anim_meshes (animations m ! a) ! f = mi"
      by (auto simp: in_set_conv_nth)
    then show ?thesis using export_to_gltf_warns [OF e assms, of f] mi(2) by simp
  qed
  have n: "nodes st = map (link_node m) (enumerate 0 (emitted m))"
    using out by (simp add: output_of_def)
  show ?thesis
    using e n fg c w by auto
qed

text \<open>
  The theorem used on the first animation of the sample model: of its two frames only the
  first generates nodes, and the warning for mesh index 7 is printed.
\<close>

theorem frame_group_count_witness:
  "\<exists>st. export_to_gltf sample = Inr st \<and> frame_groups sample 0 = {0} \<and>
     card (frame_groups sample 0) = 1 \<and>
     Mesh_index_out_of_range 7 ''walk'' \<in> set (printed st)"
proof -
  have a: "0 < length (animations sample)" by (simp add: sample_def)
  from frame_group_count [OF a] obtain st where e: "export_to_gltf sample = Inr st"
    and w: "set (map (\<lambda>mi. Mesh_index_out_of_range mi (anim_name (animations sample ! 0)))
            (filter (\<lambda>mi. mi \<ge> length (meshes sample)) (anim_meshes (animations sample ! 0))))
       \<subseteq> set (printed st)"
    by blast
  have "Mesh_index_out_of_range 7 ''walk'' \<in> set (printed st)"
    using w by (simp add: sample_def)
  moreover have "frame_groups sample 0 = {0}"
    by (simp add: frame_groups_def emitted_sample)
  ultimately show ?thesis using e by simp
qed

text \<open>
  Claim C5 as stated fails: the first animation of the sample model has two frames, the
  second with an out-of-range mesh index, and nodes are generated for one frame only.
\<close>

theorem out_of_range_frame_counterexample:
  "\<not> isl (export_to_gltf sample) \<and>
   map node_name (nodes (projr (export_to_gltf sample))) =
     [''walk_00_frame00_skin'', ''walk_00_frame00_skin'',
      ''walk_01_frame00_skin'', ''walk_01_frame00_skin''] \<and>
   card (frame_groups sample 0) = 1 \<and> length (anim_meshes (animations sample ! 0)) = 2"
  by (simp add: sample_run frame_groups_def emitted_sample) (simp add: sample_def)

subsection \<open>C6: material indices out of range\<close>

text \<open>
  Claim C6, as amended: for every emitted link whose material index is not below the
  number of materials, serialization does not fail, the primitive is bound to material
  index 0 and the warning is printed; and when the model has at least one material, no
  primitive of the output has a material index out of range.
\<close>

theorem material_fallback:
  assumes "k < length (emitted m)"
    and "material (occ_link (emitted m ! k)) \<ge> length (materials m)"
  shows "\<exists>st. export_to_gltf m = Inr st \<and>
     map prim_material (primitives (gltf_meshes st ! k)) = [0] \<and>
     Invalid_material_index (material (occ_link (emitted m ! k)))
        (anim_name (occ_animation (emitted m ! k))) (occ_frame_idx (emitted m ! k))
        (occ_link_idx (emitted m ! k)) \<in> set (printed st) \<and>
     (materials m = [] \<or>
      list_all (\<lambda>g. list_all (\<lambda>p. prim_material p < length (materials m)) (primitives g))
        (gltf_meshes st))"
proof -
  obtain st where e: "export_to_gltf m = Inr st" and out: "output_of m (emitted m) st"
    and msg: "messages_of m (model_links m) st"
    by (rule export_result)
  have mem: "emitted m ! k \<in> set (emitted m)" using assms(1) by simp
  then have u: "usable m (occ_link (emitted m ! k))" and ml: "emitted m ! k \<in> set (model_links m)"
    by (simp_all add: emitted_def emitted_of_def)
  have w: "material_message (emitted m ! k) \<in> set (printed st)"
    using msg ml u assms(2) by (auto simp: messages_of_def)
  have p: "map prim_material (primitives (gltf_meshes st ! k)) = [0]"
    using output_at(1) [OF out assms(1)] assms(2)
    by (simp add: link_mesh_def material_index_for_def)
  have g: "gltf_meshes st = map (link_mesh m) (enumerate 0 (emitted m))"
    using out by (simp add: output_of_def)
  have "list_all (\<lambda>g. list_all (\<lambda>p. prim_material p < length (materials m)) (primitives g))
        (gltf_meshes st)" if "materials m \<noteq> []"
    unfolding g using that
    by (auto simp: list_all_iff link_mesh_def material_index_for_def)
  then show ?thesis using e w p by (auto simp: material_message_def)
qed

text \<open>
  The theorem used on the second link of the sample model, whose material index equals
  the number of materials.
\<close>

theorem material_fallback_witness:
  "\<exists>st. export_to_gltf sample = Inr st \<and>
     map prim_material (primitives (gltf_meshes st ! 1)) = [0] \<and>
     Invalid_material_index 1 ''walk'' 0 1 \<in> set (printed st)"
  using material_fallback [of 1 sample, unfolded emitted_sample]
  by (auto simp: sample_def)

text \<open>
  Claim C6 as stated fails for a model without materials: the primitive is bound to
  material index 0, which is not below the number of materials.
\<close>

theorem empty_materials_counterexample:
  "\<not> isl (export_to_gltf no_materials) \<and>
   map (map prim_material \<circ> primitives) (gltf_meshes (projr (export_to_gltf no_materials))) = [[0]] \<and>
   length (materials no_materials) = 0"
  by (simp add: no_materials_run) (simp add: no_materials_def)

subsection \<open>C7: a bad link does not stop the serialization\<close>

text \<open>
  Claim C7: the call returns a result for every model; its nodes are, in order, one for
  every link occurrence with in-range pool indices and non-empty points and triangles,
  whatever the other links are; and for every other link occurrence its warning has been
  printed.
\<close>

theorem bad_links_isolated:
  "\<exists>st. export_to_gltf m = Inr st \<and>
     nodes st = map (link_node m) (enumerate 0 (emitted m)) \<and>
     set (map (skip_message m) (skipped m)) \<subseteq> set (printed st)"
proof -
  obtain st where e: "export_to_gltf m = Inr st" and out: "output_of m (emitted m) st"
    and msg: "messages_of m (model_links m) st"
    by (rule export_result)
  show ?thesis
    using e out msg
    by (auto simp: output_of_def messages_of_def skipped_def)
qed

text \<open>
  The theorem used on the sample model, whose mesh has one link with an out-of-range
  points index and one with an empty points entry.
\<close>

theorem bad_links_isolated_witness:
  "\<exists>st. export_to_gltf sample = Inr st \<and>
     map node_name (nodes st) = [''walk_00_frame00_skin'', ''walk_00_frame00_skin'',
       ''walk_01_frame00_skin'', ''walk_01_frame00_skin''] \<and>
     Error_processing_mesh ''walk'' 0 2 IndexError \<in> set (printed st) \<and>
     Empty_points_data ''walk'' 0 3 \<in> set (printed st)"
  using bad_links_isolated [of sample, unfolded nodes_sample skip_messages_sample]
  by auto

subsection \<open>C8: bounds of the position accessor\<close>

text \<open>
  What the code does for every emitted link: the items that its position accessor covers
  in the vertex byte array are the transformed points packed as binary32 values, while
  the accessor's minimum and maximum are computed by \<^verbatim>\<open>min\<close> and \<^verbatim>\<open>max\<close> from the
  transformed points themselves, which are doubles.
\<close>

lemma position_accessor_contents:
  assumes "k < length (emitted m)"
  shows "\<exists>st. export_to_gltf m = Inr st \<and>
    (let a = position_accessor st k;
         vs = map transform_point (points_data m ! points (occ_link (emitted m ! k)))
     in vs \<noteq> [] \<and>
        read_items (vertex_byte_array st) (byteOffset a) (3 * acc_count a) = pack_vertices vs \<and>
        bounds py_min vs = Inr (axis_min vs) \<and> acc_min a = Some (axis_min vs) \<and>
        bounds py_max vs = Inr (axis_max vs) \<and> acc_max a = Some (axis_max vs))"
proof -
  obtain st where e: "export_to_gltf m = Inr st" and out: "output_of m (emitted m) st"
    by (rule export_result)
  let ?l = "occ_link (emitted m ! k)"
  have "emitted m ! k \<in> set (emitted m)" using assms by simp
  then have "usable m ?l" by (simp add: emitted_def emitted_of_def)
  then have ne: "link_vertices m ?l \<noteq> []" by (simp add: usable_def link_vertices_def)
  have v: "vertex_byte_array st = concat (map (vertex_items m) (emitted m))"
    using out by (simp add: output_of_def)
  show ?thesis
    using e ne read_position_items [OF assms v] bounds_min [OF ne] bounds_max [OF ne]
    by (simp add: position_accessor_at [OF out assms] Let_def link_vertices_def)
qed


subsection \<open>C9: links that share a points pool entry\<close>

text \<open>
  Claim C9: two emitted links with the same points pool index append the same packed
  vertex items to the vertex byte array, hence the same bytes under any encoding \<open>pack\<close>
  of one item.
\<close>

theorem shared_points_same_bytes:
  assumes "j < length (emitted m)" and "k < length (emitted m)"
    and "points (occ_link (emitted m ! j)) = points (occ_link (emitted m ! k))"
  shows "\<exists>st. export_to_gltf m = Inr st \<and>
    (let a = position_accessor st j; b = position_accessor st k
     in acc_count a = acc_count b \<and>
        read_items (vertex_byte_array st) (byteOffset a) (3 * acc_count a)
          = read_items (vertex_byte_array st) (byteOffset b) (3 * acc_count b) \<and>
        concat (map pack (read_items (vertex_byte_array st) (byteOffset a) (3 * acc_count a)))
          = concat (map pack (read_items (vertex_byte_array st) (byteOffset b) (3 * acc_count b))))"
proof -
  obtain st where e: "export_to_gltf m = Inr st" and out: "output_of m (emitted m) st"
    by (rule export_result)
  have v: "vertex_byte_array st = concat (map (vertex_items m) (emitted m))"
    using out by (simp add: output_of_def)
  have same: "link_vertices m (occ_link (emitted m ! j)) = link_vertices m (occ_link (emitted m ! k))"
    using assms(3) by (simp add: link_vertices_def)
  show ?thesis
    using e read_position_items [OF assms(1) v] read_position_items [OF assms(2) v] same
    by (simp add: position_accessor_at [OF out assms(1)] position_accessor_at [OF out assms(2)]
        Let_def)
qed

text \<open>
  The theorem used on the first and the last emitted link of the sample model.
\<close>

theorem shared_points_same_bytes_witness:
  "\<exists>st. export_to_gltf sample = Inr st \<and>
     read_items (vertex_byte_array st) (byteOffset (position_accessor st 0))
        (3 * acc_count (position_accessor st 0))
     = read_items (vertex_byte_array st) (byteOffset (position_accessor st 3))
        (3 * acc_count (position_accessor st 3))"
  using shared_points_same_bytes [of 0 sample 3, unfolded emitted_sample]
  by (auto simp: Let_def)

subsection \<open>C10: a skipped link leaves the output untouched\<close>

text \<open>
  Claim C10: when the \<^verbatim>\<open>try\<close> block of a link ends in a \<^verbatim>\<open>continue\<close> (an out-of-range
  pool index, or empty points or triangles), the iteration returns with the vertex byte
  array, the index byte array and the lists of accessors, meshes and nodes exactly as
  they were before it. By \<open>resolve_link_continue_iff\<close> these are the links that are not
  usable in the model as it is at that moment.
\<close>

theorem skip_is_atomic:
  assumes "snd (resolve_link a f i l st) = None"
  shows "\<exists>st'. process_link a x f (i, l) st = Inr st' \<and>
     vertex_byte_array st' = vertex_byte_array st \<and> index_byte_array st' = index_byte_array st \<and>
     accessors st' = accessors st \<and> gltf_meshes st' = gltf_meshes st \<and> nodes st' = nodes st"
  using assms
  by (auto simp: process_link_def resolve_link_def print_def Let_def
      split: sum.splits if_splits prod.splits)

text \<open>
  The theorem used on the third link of the sample model, whose points index is out of
  range, in the initial state.
\<close>

theorem skip_is_atomic_witness:
  "\<exists>st'. process_link \<lparr>anim_name = ''walk'', anim_meshes = [0, 7]\<rparr> 0 0
       (2, \<lparr>material = 0, points = 7, triangles = 0, texture_coordinates = 0\<rparr>)
       (initial_state sample) = Inr st' \<and>
     vertex_byte_array st' = [] \<and> index_byte_array st' = [] \<and> accessors st' = [] \<and>
     gltf_meshes st' = [] \<and> nodes st' = []"
proof -
  have "snd (resolve_link \<lparr>anim_name = ''walk'', anim_meshes = [0, 7]\<rparr> 0 2
       \<lparr>material = 0, points = 7, triangles = 0, texture_coordinates = 0\<rparr>
       (initial_state sample)) = None"
    by code_simp
  from skip_is_atomic [OF this, of 0] show ?thesis
    by (simp add: initial_state_def)
qed

end
